theory Spec2Isabelle
  imports Main
begin

section \<open>Python strings\<close>

text \<open>
  A Python \<open>str\<close> is modelled as a \<open>string\<close> whose characters are code points below 256.
  The helpers below follow the semantics of the \<open>str\<close> methods the sources call.
\<close>

definition nl :: string where
  "nl = [CHR 0x0A]"

definition squote :: string where
  "squote = [CHR 0x27]"

definition dquote :: string where
  "dquote = [CHR 0x22]"

text \<open>\<open>str.isspace\<close> on one character, for code points below 256.\<close>

definition py_isspace :: "char \<Rightarrow> bool" where
  "py_isspace c =
     (let n = (of_char c :: nat)
      in (9 \<le> n \<and> n \<le> 13) \<or> (28 \<le> n \<and> n \<le> 32) \<or> n = 133 \<or> n = 160)"

text \<open>\<open>s.strip()\<close>: leading and trailing whitespace removed.\<close>

definition py_strip :: "string \<Rightarrow> string" where
  "py_strip s = rev (dropWhile py_isspace (rev (dropWhile py_isspace s)))"

text \<open>
  \<open>s.rstrip(chars)\<close>: the argument is a SET of characters; every trailing character of
  \<open>s\<close> that occurs in \<open>chars\<close> is removed.
\<close>

definition py_rstrip :: "string \<Rightarrow> string \<Rightarrow> string" where
  "py_rstrip chars s = rev (dropWhile (\<lambda>c. c \<in> set chars) (rev s))"

definition py_startswith :: "string \<Rightarrow> string \<Rightarrow> bool" where
  "py_startswith s p = (take (length p) s = p)"

definition py_endswith :: "string \<Rightarrow> string \<Rightarrow> bool" where
  "py_endswith s p = (length p \<le> length s \<and> drop (length s - length p) s = p)"

text \<open>\<open>s.lower()\<close>, character by character (ASCII and Latin-1 capitals).\<close>

definition lower_char :: "char \<Rightarrow> char" where
  "lower_char c =
     (let n = (of_char c :: nat)
      in if (65 \<le> n \<and> n \<le> 90) \<or> (192 \<le> n \<and> n \<le> 222 \<and> n \<noteq> 215)
         then char_of (n + 32) else c)"

definition py_lower :: "string \<Rightarrow> string" where
  "py_lower s = map lower_char s"

text \<open>\<open>w in s\<close> for strings: \<open>w\<close> occurs in \<open>s\<close> as a contiguous block.\<close>

fun str_contains :: "string \<Rightarrow> string \<Rightarrow> bool" where
  "str_contains w [] = (w = [])"
| "str_contains w (c # cs) = (take (length w) (c # cs) = w \<or> str_contains w cs)"

text \<open>\<open>s.replace(old, new)\<close>: non-overlapping occurrences, left to right.\<close>

function py_replace :: "string \<Rightarrow> string \<Rightarrow> string \<Rightarrow> string" where
  "py_replace old new [] = (if old = [] then new else [])"
| "py_replace old new (c # cs) =
     (if old = [] then new @ c # py_replace old new cs
      else if take (length old) (c # cs) = old
           then new @ py_replace old new (drop (length old) (c # cs))
           else c # py_replace old new cs)"
  by pat_completeness auto
termination
  by (relation "measure (\<lambda>(old, new, s). length s)") (auto simp: neq_Nil_conv)

text \<open>
  \<open>s.split(sep)\<close> for a non-empty separator (every call in the sources passes a non-empty
  literal); the second argument accumulates the current piece.
\<close>

function py_split_aux :: "string \<Rightarrow> string \<Rightarrow> string \<Rightarrow> string list" where
  "py_split_aux sep cur [] = [cur]"
| "py_split_aux sep cur (c # cs) =
     (if sep \<noteq> [] \<and> take (length sep) (c # cs) = sep
      then cur # py_split_aux sep [] (drop (length sep) (c # cs))
      else py_split_aux sep (cur @ [c]) cs)"
  by pat_completeness auto
termination
  by (relation "measure (\<lambda>(sep, cur, s). length s)") (auto simp: neq_Nil_conv)

definition py_split :: "string \<Rightarrow> string \<Rightarrow> string list" where
  "py_split sep s = py_split_aux sep [] s"

fun py_join :: "string \<Rightarrow> string list \<Rightarrow> string" where
  "py_join sep [] = []"
| "py_join sep [x] = x"
| "py_join sep (x # y # ys) = x @ sep @ py_join sep (y # ys)"

text \<open>\<open>xs[-n:]\<close>: the last \<open>n\<close> elements (all of them when there are fewer), for \<open>n > 0\<close>.\<close>

definition py_last_n :: "nat \<Rightarrow> 'a list \<Rightarrow> 'a list" where
  "py_last_n n xs = drop (length xs - n) xs"

text \<open>\<open>str(i)\<close> for an integer: decimal digits, with a minus sign when negative.\<close>

definition digit_char :: "nat \<Rightarrow> char" where
  "digit_char d = char_of (48 + d)"

fun digits_of :: "nat \<Rightarrow> string" where
  "digits_of n = (if n < 10 then [digit_char n] else digits_of (n div 10) @ [digit_char (n mod 10)])"

declare digits_of.simps [simp del]

definition py_str_int :: "int \<Rightarrow> string" where
  "py_str_int i = (if i < 0 then CHR ''-'' # digits_of (nat (- i)) else digits_of (nat i))"

section \<open>Python exceptions and sequence indexing\<close>

text \<open>
  The exceptions the modelled code raises. \<open>BaseException k\<close> stands for an exception of
  class \<open>k\<close> that derives from \<open>BaseException\<close> but not from \<open>Exception\<close> (\<open>SystemExit\<close>,
  \<open>KeyboardInterrupt\<close>, \<open>GeneratorExit\<close>): a handler \<open>except Exception\<close> does not catch it.
\<close>

datatype py_error =
    IndexError
  | ValueError string
  | RuntimeError string
  | AttributeError
  | BaseException string

fun is_exception :: "py_error \<Rightarrow> bool" where
  "is_exception (BaseException k) = False"
| "is_exception e = True"

text \<open>
  The outcome of running code the program does not own (a skill hook, a code string handed
  to \<open>exec\<close>): it returns a value; it raises an \<open>Exception\<close> whose text is given; it leaves by
  an exception that is not an \<open>Exception\<close> (its class name is given; \<open>sys.exit\<close> does this);
  or it never returns.
\<close>

datatype 'a foreign =
    Returned 'a
  | RaisedException string
  | Escaped string
  | NeverReturns

definition settles :: "'a foreign \<Rightarrow> bool" where
  "settles x = (case x of Returned v \<Rightarrow> True | RaisedException m \<Rightarrow> True
                | Escaped k \<Rightarrow> False | NeverReturns \<Rightarrow> False)"

text \<open>
  The outcome of a call of the program that runs such code: \<open>None\<close> when the call never
  returns, \<open>Some (Inl e)\<close> when it raises \<open>e\<close>, \<open>Some (Inr v)\<close> when it returns \<open>v\<close>.
\<close>

type_synonym 'a outcome = "(py_error + 'a) option"

text \<open>\<open>xs[i]\<close>: a negative index counts from the end; out of range raises \<open>IndexError\<close>.\<close>

definition py_index :: "'a list \<Rightarrow> int \<Rightarrow> py_error + 'a" where
  "py_index xs i =
     (if 0 \<le> i \<and> i < int (length xs) then Inr (xs ! nat i)
      else if i < 0 \<and> - int (length xs) \<le> i then Inr (xs ! nat (int (length xs) + i))
      else Inl IndexError)"

section \<open>Skill registry (core/skill_registry.py)\<close>

text \<open>
  \<open>Skill\<close>: the dataclass fields the registry and the Actor read. A parameter spec keeps the
  truth value of \<open>param_spec.get("required", False)\<close>. The callable hook takes the keyword
  arguments; when it returns, the result is kept as its \<open>str\<close> rendering. The opaque metadata \<open>returns\<close> and \<open>examples\<close> is read by no
  operation modelled here and is left out.
\<close>

record param_spec =
  required :: bool

record skill =
  name :: string
  description :: string
  agent :: string
  category :: string
  module_path :: string
  parameters :: "(string \<times> param_spec) list"
  tags :: "string list"
  version :: string
  is_core :: bool
  overrides_core :: bool
  prompt_instructions :: "string option"
  execute_func :: "((string \<times> string) list \<Rightarrow> string foreign) option"

text \<open>
  \<open>Skill.execute(**params)\<close>. The hook runs under \<open>except Exception\<close>: an \<open>Exception\<close> is
  wrapped in a \<open>RuntimeError\<close>, any other exception passes through.
\<close>

definition skill_execute :: "skill \<Rightarrow> (string \<times> string) list \<Rightarrow> string outcome" where
  "skill_execute s params =
     (case execute_func s of
        None \<Rightarrow> Some (Inl (RuntimeError (''Skill '' @ name s @ '' has no execute function loaded'')))
      | Some f \<Rightarrow>
          (case find (\<lambda>(pn, spec). required spec \<and> pn \<notin> fst ` set params) (parameters s) of
             Some (pn, spec) \<Rightarrow>
               Some (Inl (ValueError (''Missing required parameter '' @ squote @ pn @ squote
                                      @ '' for skill '' @ squote @ name s @ squote)))
           | None \<Rightarrow>
               (case f params of
                  Returned res \<Rightarrow> Some (Inr res)
                | RaisedException msg \<Rightarrow>
                    Some (Inl (RuntimeError (''Skill '' @ squote @ name s @ squote
                                             @ '' execution failed: '' @ msg)))
                | Escaped k \<Rightarrow> Some (Inl (BaseException k))
                | NeverReturns \<Rightarrow> None)))"

text \<open>
  \<open>SkillRegistry\<close>: the primary index \<open>_skills\<close>, the core index \<open>_core_skills\<close> and the two
  name indices.
\<close>

record skill_registry =
  registry_agent_name :: string
  skills :: "string \<rightharpoonup> skill"
  core_skills :: "string \<rightharpoonup> skill"
  skills_by_agent :: "string \<rightharpoonup> string list"
  skills_by_category :: "string \<rightharpoonup> string list"
  initialized :: bool

definition new_registry :: "string \<Rightarrow> skill_registry" where
  "new_registry an =
     \<lparr>registry_agent_name = an, skills = Map.empty, core_skills = Map.empty,
      skills_by_agent = Map.empty, skills_by_category = Map.empty, initialized = False\<rparr>"

text \<open>
  The in-place assignment \<open>skill.overrides_core = True\<close> of \<open>register_skill\<close>: it happens
  exactly when the name is already in the primary index, the existing entry is a core skill
  and the new skill is not.
\<close>

definition mark_override :: "skill_registry \<Rightarrow> skill \<Rightarrow> skill" where
  "mark_override r s =
     (case skills r (name s) of
        None \<Rightarrow> s
      | Some existing \<Rightarrow>
          if is_core existing \<and> \<not> is_core s then s\<lparr>overrides_core := True\<rparr>
          else s)"

text \<open>An index list: created when the key is new, the name appended when not yet present.\<close>

definition index_add :: "(string \<rightharpoonup> string list) \<Rightarrow> string \<Rightarrow> string \<Rightarrow> (string \<rightharpoonup> string list)" where
  "index_add ix k n =
     (let cur = (case ix k of None \<Rightarrow> [] | Some ns \<Rightarrow> ns)
      in ix(k \<mapsto> (if n \<in> set cur then cur else cur @ [n])))"

text \<open>
  \<open>register_skill(skill)\<close>: returns the skill object as the call leaves it and the updated
  registry.
\<close>

definition register_skill :: "skill_registry \<Rightarrow> skill \<Rightarrow> skill \<times> skill_registry" where
  "register_skill r s =
     (let s' = mark_override r s;
          core' = (if is_core s' then (core_skills r)(name s' \<mapsto> s') else core_skills r)
      in (s',
          r\<lparr>skills := (skills r)(name s' \<mapsto> s'),
            core_skills := core',
            skills_by_agent := index_add (skills_by_agent r) (agent s') (name s'),
            skills_by_category := index_add (skills_by_category r) (category s') (name s')\<rparr>))"

definition get_skill :: "skill_registry \<Rightarrow> string \<Rightarrow> skill option" where
  "get_skill r n = skills r n"

definition has_skill :: "skill_registry \<Rightarrow> string \<Rightarrow> bool" where
  "has_skill r n = (n \<in> dom (skills r))"

definition execute_skill :: "skill_registry \<Rightarrow> string \<Rightarrow> (string \<times> string) list \<Rightarrow> string outcome" where
  "execute_skill r n params =
     (case get_skill r n of
        None \<Rightarrow> Some (Inl (ValueError (''Skill '' @ squote @ n @ squote @ '' not found in registry'')))
      | Some s \<Rightarrow> skill_execute s params)"

text \<open>The registry states a program can build: a sequence of registrations on a new registry.\<close>

definition register_all :: "skill_registry \<Rightarrow> skill list \<Rightarrow> skill_registry" where
  "register_all r ss = foldl (\<lambda>acc s. snd (register_skill acc s)) r ss"

text \<open>\<open>Agent\<close>: the owner of a registry; \<open>Agent.execute_skill\<close> delegates to it.\<close>

record agent =
  agent_name :: string
  registry :: skill_registry

definition agent_execute_skill :: "agent \<Rightarrow> string \<Rightarrow> (string \<times> string) list \<Rightarrow> string outcome" where
  "agent_execute_skill ag n params = execute_skill (registry ag) n params"

section \<open>Audit strategies (core/audit_strategies.py)\<close>

datatype severity = INFO | WARNING | ERROR

record audit_result =
  passed :: bool
  message :: string
  severity :: severity

definition mk_audit :: "bool \<Rightarrow> string \<Rightarrow> severity \<Rightarrow> audit_result" where
  "mk_audit p m sv = \<lparr>passed = p, message = m, severity = sv\<rparr>"

text \<open>
  The filesystem the predicates inspect: \<open>os.path.exists\<close>, and reading a file, which returns
  its content or raises (\<open>Inl\<close>, carrying \<open>str(e)\<close>).
\<close>

record filesystem =
  path_exists :: "string \<Rightarrow> bool"
  read_file :: "string \<Rightarrow> string + string"

definition verify_file_exists :: "filesystem \<Rightarrow> string \<Rightarrow> audit_result" where
  "verify_file_exists fs path =
     (if path_exists fs path
      then mk_audit True (''File '' @ squote @ path @ squote @ '' exists.'') INFO
      else mk_audit False (''File '' @ squote @ path @ squote @ '' NOT found.'') ERROR)"

definition verify_file_content_contains :: "filesystem \<Rightarrow> string \<Rightarrow> string \<Rightarrow> audit_result" where
  "verify_file_content_contains fs path substring =
     (if \<not> path_exists fs path
      then mk_audit False (''File '' @ squote @ path @ squote @ '' does not exist.'') ERROR
      else
        (case read_file fs path of
           Inl e \<Rightarrow>
             mk_audit False (''Error reading file '' @ squote @ path @ squote @ '': '' @ e) ERROR
         | Inr content \<Rightarrow>
             if str_contains substring content
             then mk_audit True (''File '' @ squote @ path @ squote @ '' contains expected text.'') INFO
             else
               (let preview = (if length content > 50 then take 50 content @ ''...'' else content)
                in mk_audit False
                     (''File '' @ squote @ path @ squote @ '' content mismatch. Found: ''
                      @ squote @ preview @ squote) ERROR)))"

definition verify_file_does_not_exist :: "filesystem \<Rightarrow> string \<Rightarrow> audit_result" where
  "verify_file_does_not_exist fs path =
     (if \<not> path_exists fs path
      then mk_audit True (''File '' @ squote @ path @ squote @ '' correctly does not exist.'') INFO
      else mk_audit False (''File '' @ squote @ path @ squote @ '' exists but should not.'') ERROR)"

definition verify_tool_output_success :: "string \<Rightarrow> audit_result" where
  "verify_tool_output_success previous_output =
     (if str_contains ''error'' (py_lower previous_output)
         \<or> str_contains ''exception'' (py_lower previous_output)
         \<or> str_contains ''failed'' (py_lower previous_output)
      then mk_audit False (''Previous step reported error: '' @ previous_output) ERROR
      else mk_audit True ''Previous step executed successfully.'' INFO)"

section \<open>Execution state and step router (core/graph.py)\<close>

text \<open>
  A plan step is a mapping; \<open>step.get("role")\<close> and \<open>step.get("expected_outcome", "")\<close> may
  find no entry, the instruction is the step's required text. The execution state keeps the
  entries the router and the two step nodes read; each is read with \<open>state.get(key, default)\<close>,
  so an entry may be absent.
\<close>

record plan_step =
  role :: "string option"
  instruction :: string
  expected_outcome :: "string option"

record agent_state =
  plan :: "plan_step list option"
  current_step_index :: "int option"
  tool_outputs :: "(string \<rightharpoonup> string) option"
  agent_instance :: "agent option"

definition get_index :: "agent_state \<Rightarrow> int" where
  "get_index st = (case current_step_index st of None \<Rightarrow> 0 | Some i \<Rightarrow> i)"

definition get_plan :: "agent_state \<Rightarrow> plan_step list" where
  "get_plan st = (case plan st of None \<Rightarrow> [] | Some p \<Rightarrow> p)"

definition get_tool_outputs :: "agent_state \<Rightarrow> (string \<rightharpoonup> string)" where
  "get_tool_outputs st = (case tool_outputs st of None \<Rightarrow> Map.empty | Some m \<Rightarrow> m)"

datatype route = END | ToActor | ToAuditor

definition route_step :: "agent_state \<Rightarrow> py_error + route" where
  "route_step st =
     (let idx = get_index st; pl = get_plan st
      in if idx \<ge> int (length pl) then Inr END
         else
           (case py_index pl idx of
              Inl e \<Rightarrow> Inl e
            | Inr step \<Rightarrow>
                if role step = Some ''Actor'' then Inr ToActor
                else if role step = Some ''Auditor'' then Inr ToAuditor
                else Inr END))"

text \<open>The partial state update a node returns, and its merge into the state.\<close>

record state_update =
  upd_tool_outputs :: "(string \<rightharpoonup> string) option"
  upd_current_step_index :: "int option"

definition empty_update :: state_update where
  "empty_update = \<lparr>upd_tool_outputs = None, upd_current_step_index = None\<rparr>"

definition merge_update :: "agent_state \<Rightarrow> state_update \<Rightarrow> agent_state" where
  "merge_update st u =
     st\<lparr>tool_outputs := (case upd_tool_outputs u of None \<Rightarrow> tool_outputs st | Some m \<Rightarrow> Some m),
        current_step_index :=
          (case upd_current_step_index u of None \<Rightarrow> current_step_index st | Some i \<Rightarrow> Some i)\<rparr>"

definition step_key :: "int \<Rightarrow> string" where
  "step_key i = ''step_'' @ py_str_int i"

section \<open>Actor node (core/nodes/actor.py)\<close>

text \<open>
  What the Actor reaches outside the program:
  \<^item> \<open>skill_search\<close>: group 1 of the regular-expression search for a verb cue followed by a
    skill name in the instruction (\<open>None\<close> when the search finds nothing);
  \<^item> \<open>llm_generate\<close>: \<open>llm.generate(system_prompt, user_prompt)\<close>; both clients catch every
    \<open>Exception\<close> of the request and return text (the empty string on failure), and the
    request is taken to return;
  \<^item> \<open>exec_code\<close>: \<open>exec\<close> of a code string in a namespace that holds \<open>os\<close>, \<open>sys\<close>,
    \<open>subprocess\<close> and \<open>json\<close>; the string is generated text, so every outcome of foreign
    code is possible.
  The node returns the calls it made, in order, together with its outcome: the partial
  update, an exception that leaves the node, or no return.
\<close>

record actor_env =
  skill_search :: "string \<Rightarrow> string option"
  llm_generate :: "string \<Rightarrow> string \<Rightarrow> string"
  exec_code :: "string \<Rightarrow> unit foreign"

datatype actor_event =
    SkillCall string
  | LLMGenerate string string
  | Exec string

definition actor_system_prompt :: string where
  "actor_system_prompt =
     ''You are the Actor. Write Python code to solve the instruction. ''
     @ ''Return ONLY code, no markdown. ''
     @ ''Use ONLY standard Python libraries (os, sys, json, etc). ''
     @ ''Do NOT import '' @ squote @ ''file_operations'' @ squote @ '' or other custom modules. ''
     @ ''If you need to write a file, use open() and write().''"

definition fence :: string where
  "fence = ''```''"

definition fence_python :: string where
  "fence_python = ''```python''"

text \<open>The cleaning of the LLM response: surrounding whitespace and markdown fences removed.\<close>

definition clean_code :: "string \<Rightarrow> string" where
  "clean_code code_response =
     (let c0 = py_strip code_response;
          c1 = (if py_startswith c0 fence
                then
                  (let lines0 = py_split nl c0;
                       lines1 = (case lines0 of
                                   [] \<Rightarrow> []
                                 | l # ls \<Rightarrow> if py_startswith l fence then ls else l # ls);
                       lines2 = (if lines1 \<noteq> [] \<and> py_strip (last lines1) = fence
                                 then butlast lines1 else lines1)
                   in py_join nl lines2)
                else c0)
      in py_strip (py_replace fence [] (py_replace fence_python [] c1)))"

text \<open>
  The skill attempt, made when an agent is attached, the search finds a name and the
  registry has a skill of that name. It returns \<open>Some\<close> result when the skill ran; \<open>None\<close>
  when no attempt was made or the call raised an \<open>Exception\<close> (caught by \<open>except Exception\<close>,
  the node then goes on to code generation). An exception that is not an \<open>Exception\<close> leaves
  the node, and a hook that never returns keeps the node from returning.
\<close>

definition actor_try_skill ::
  "actor_env \<Rightarrow> agent_state \<Rightarrow> string \<Rightarrow> actor_event list \<times> string option outcome" where
  "actor_try_skill env st instr =
     (case agent_instance st of
        None \<Rightarrow> ([], Some (Inr None))
      | Some ag \<Rightarrow>
          (case skill_search env instr of
             None \<Rightarrow> ([], Some (Inr None))
           | Some skill_name \<Rightarrow>
               if has_skill (registry ag) skill_name
               then
                 (case agent_execute_skill ag skill_name [] of
                    Some (Inr skill_result) \<Rightarrow> ([SkillCall skill_name], Some (Inr (Some skill_result)))
                  | Some (Inl e) \<Rightarrow>
                      if is_exception e then ([SkillCall skill_name], Some (Inr None))
                      else ([SkillCall skill_name], Some (Inl e))
                  | None \<Rightarrow> ([SkillCall skill_name], None))
               else ([], Some (Inr None))))"

text \<open>
  The fallback: generate code, clean it, execute it under \<open>except Exception\<close>. It returns the
  output string of the step when the code completes or raises an \<open>Exception\<close>.
\<close>

definition actor_fallback :: "actor_env \<Rightarrow> string \<Rightarrow> actor_event list \<times> string outcome" where
  "actor_fallback env instr =
     (let code_response = llm_generate env actor_system_prompt instr;
          cleaned = clean_code code_response
      in ([LLMGenerate actor_system_prompt instr, Exec cleaned],
          (case exec_code env cleaned of
             Returned u \<Rightarrow> Some (Inr ''Success'')
           | RaisedException m \<Rightarrow> Some (Inr (''Error: '' @ m))
           | Escaped k \<Rightarrow> Some (Inl (BaseException k))
           | NeverReturns \<Rightarrow> None)))"

text \<open>The update \<open>{"tool_outputs": ..., "current_step_index": idx + 1}\<close> of a step.\<close>

definition step_update :: "agent_state \<Rightarrow> string \<Rightarrow> state_update" where
  "step_update st output =
     \<lparr>upd_tool_outputs = Some ((get_tool_outputs st)(step_key (get_index st) \<mapsto> output)),
      upd_current_step_index = Some (get_index st + 1)\<rparr>"

definition actor_node :: "actor_env \<Rightarrow> agent_state \<Rightarrow> actor_event list \<times> state_update outcome" where
  "actor_node env st =
     (let idx = get_index st; pl = get_plan st
      in if idx \<ge> int (length pl) then ([], Some (Inr empty_update))
         else
           (case py_index pl idx of
              Inl e \<Rightarrow> ([], Some (Inl e))
            | Inr step \<Rightarrow>
                if role step \<noteq> Some ''Actor'' then ([], Some (Inr empty_update))
                else
                  (case actor_try_skill env st (instruction step) of
                     (ev, None) \<Rightarrow> (ev, None)
                   | (ev, Some (Inl e)) \<Rightarrow> (ev, Some (Inl e))
                   | (ev, Some (Inr (Some skill_result))) \<Rightarrow>
                       (ev, Some (Inr (step_update st (''Skill executed: '' @ skill_result))))
                   | (ev, Some (Inr None)) \<Rightarrow>
                       (case actor_fallback env (instruction step) of
                          (ev', None) \<Rightarrow> (ev @ ev', None)
                        | (ev', Some (Inl e)) \<Rightarrow> (ev @ ev', Some (Inl e))
                        | (ev', Some (Inr output)) \<Rightarrow>
                            (ev @ ev', Some (Inr (step_update st output)))))))"

section \<open>Auditor node (core/nodes/auditor.py)\<close>

text \<open>
  The outcome of the strategy-selection request (POST, status check, JSON decoding and
  \<open>data.get("strategy")\<close>, \<open>data.get("args", {})\<close>): either an exception on the way
  (\<open>ReplyFailed\<close>), or the selected strategy (\<open>None\<close> when the entry is absent or is not a
  string) and the arguments (\<open>None\<close> when the value is not a mapping, so that \<open>args.get\<close>
  raises). The request is determined by the instruction, the expected outcome and the
  previous output, which the prompt template embeds.
\<close>

datatype audit_reply =
    ReplyFailed string
  | Reply "string option" "(string \<rightharpoonup> string) option"

record auditor_env =
  select_strategy :: "string \<Rightarrow> string \<Rightarrow> string \<Rightarrow> audit_reply"
  files :: filesystem

definition arg_get :: "(string \<rightharpoonup> string) option \<Rightarrow> string \<Rightarrow> py_error + string" where
  "arg_get args k =
     (case args of
        None \<Rightarrow> Inl AttributeError
      | Some m \<Rightarrow> Inr (case m k of None \<Rightarrow> [] | Some v \<Rightarrow> v))"

text \<open>The hardcoded dispatch on the strategy name.\<close>

definition audit_dispatch ::
  "filesystem \<Rightarrow> string option \<Rightarrow> (string \<rightharpoonup> string) option \<Rightarrow> string \<Rightarrow> py_error + audit_result" where
  "audit_dispatch fs strategy_name args prev_output =
     (if strategy_name = Some ''verify_file_exists'' then
        (case arg_get args ''path'' of
           Inl e \<Rightarrow> Inl e
         | Inr p \<Rightarrow> Inr (verify_file_exists fs p))
      else if strategy_name = Some ''verify_file_content_contains'' then
        (case arg_get args ''path'' of
           Inl e \<Rightarrow> Inl e
         | Inr p \<Rightarrow>
             (case arg_get args ''substring'' of
                Inl e \<Rightarrow> Inl e
              | Inr sub \<Rightarrow> Inr (verify_file_content_contains fs p sub)))
      else if strategy_name = Some ''verify_file_does_not_exist'' then
        (case arg_get args ''path'' of
           Inl e \<Rightarrow> Inl e
         | Inr p \<Rightarrow> Inr (verify_file_does_not_exist fs p))
      else Inr (verify_tool_output_success prev_output))"

text \<open>
  The body of the \<open>try\<close> block: the audit result the node reports, \<open>None\<close> when an exception
  was caught.
\<close>

definition auditor_verify :: "auditor_env \<Rightarrow> plan_step \<Rightarrow> string \<Rightarrow> audit_result option" where
  "auditor_verify env step prev_output =
     (case select_strategy env (instruction step)
             (case expected_outcome step of None \<Rightarrow> [] | Some x \<Rightarrow> x) prev_output of
        ReplyFailed m \<Rightarrow> None
      | Reply strategy_name args \<Rightarrow>
          (case audit_dispatch (files env) strategy_name args prev_output of
             Inl e \<Rightarrow> None
           | Inr res \<Rightarrow> Some res))"

definition previous_output :: "agent_state \<Rightarrow> string" where
  "previous_output st =
     (case get_tool_outputs st (step_key (get_index st - 1)) of None \<Rightarrow> [] | Some v \<Rightarrow> v)"

definition auditor_node :: "auditor_env \<Rightarrow> agent_state \<Rightarrow> py_error + (state_update \<times> audit_result option)" where
  "auditor_node env st =
     (let idx = get_index st; pl = get_plan st
      in if idx \<ge> int (length pl) then Inr (empty_update, None)
         else
           (case py_index pl idx of
              Inl e \<Rightarrow> Inl e
            | Inr step \<Rightarrow>
                if role step \<noteq> Some ''Auditor'' then Inr (empty_update, None)
                else
                  Inr (\<lparr>upd_tool_outputs = None, upd_current_step_index = Some (idx + 1)\<rparr>,
                       auditor_verify env step (previous_output st))))"

section \<open>One tick of the step loop\<close>

text \<open>
  The graph wires the router after the Planner, the Actor and the Auditor: a tick routes on
  the state, runs the node the router names, and merges the node's update. A node that
  raises ends the run with that exception; a node that never returns ends nothing.
\<close>

datatype tick_result =
    Terminated
  | Raised py_error
  | NoReturn
  | Stepped agent_state

definition tick :: "actor_env \<Rightarrow> auditor_env \<Rightarrow> agent_state \<Rightarrow> tick_result" where
  "tick aenv denv st =
     (case route_step st of
        Inl e \<Rightarrow> Raised e
      | Inr END \<Rightarrow> Terminated
      | Inr ToActor \<Rightarrow>
          (case actor_node aenv st of
             (ev, None) \<Rightarrow> NoReturn
           | (ev, Some (Inl e)) \<Rightarrow> Raised e
           | (ev, Some (Inr u)) \<Rightarrow> Stepped (merge_update st u))
      | Inr ToAuditor \<Rightarrow>
          (case auditor_node denv st of
             Inl e \<Rightarrow> Raised e
           | Inr (u, res) \<Rightarrow> Stepped (merge_update st u)))"

section \<open>Configuration (core/config.py)\<close>

record agentos_config =
  LLM_PROVIDER :: string
  OLLAMA_BASE_URL :: string
  REASONING_MODEL :: string
  PARSER_MODEL :: string
  TOOL_MODEL :: string
  EMBEDDING_MODEL :: string
  GOOGLE_API_KEY :: "string option"
  GOOGLE_REASONING_MODEL :: string
  GOOGLE_PARSER_MODEL :: string
  ENABLE_OBSERVABILITY :: bool

text \<open>The process environment, and \<open>os.getenv(key, default)\<close>.\<close>

type_synonym environ = "string \<rightharpoonup> string"

definition getenv :: "environ \<Rightarrow> string \<Rightarrow> string \<Rightarrow> string" where
  "getenv e k d = (case e k of None \<Rightarrow> d | Some v \<Rightarrow> v)"

definition to_bool :: "string option \<Rightarrow> bool \<Rightarrow> bool" where
  "to_bool v d =
     (case v of
        None \<Rightarrow> d
      | Some x \<Rightarrow> py_lower x \<in> set [''true'', ''1'', ''yes'', ''on''])"

text \<open>
  The sanitising line of \<open>from_env\<close>:
  \<open>url.rstrip('/').rstrip('/v1').rstrip('/api').rstrip('/')\<close>, applied when the URL is not
  empty.
\<close>

definition sanitize_base_url :: "string \<Rightarrow> string" where
  "sanitize_base_url url =
     (if url \<noteq> []
      then py_rstrip ''/'' (py_rstrip ''/api'' (py_rstrip ''/v1'' (py_rstrip ''/'' url)))
      else url)"

definition valid_providers_repr :: string where
  "valid_providers_repr =
     ''['' @ squote @ ''ollama'' @ squote @ '', '' @ squote @ ''mock'' @ squote @ '', ''
     @ squote @ ''google'' @ squote @ '']''"

text \<open>\<open>_validate\<close>, run by \<open>__post_init__\<close>: the configuration, or the \<open>ValueError\<close> raised.\<close>

definition validate_config :: "agentos_config \<Rightarrow> py_error + agentos_config" where
  "validate_config c =
     (if LLM_PROVIDER c \<notin> set [''ollama'', ''mock'', ''google'']
      then Inl (ValueError (''Invalid LLM_PROVIDER: '' @ LLM_PROVIDER c
                            @ ''. Must be one of: '' @ valid_providers_repr))
      else if LLM_PROVIDER c = ''ollama'' \<and> OLLAMA_BASE_URL c = []
      then Inl (ValueError ''OLLAMA_BASE_URL must be set when using ollama provider'')
      else if LLM_PROVIDER c = ''ollama'' \<and> \<not> py_startswith (OLLAMA_BASE_URL c) ''http''
      then Inl (ValueError (''OLLAMA_BASE_URL must start with http:// or https://, got: ''
                            @ OLLAMA_BASE_URL c))
      else if LLM_PROVIDER c = ''google''
              \<and> (GOOGLE_API_KEY c = None \<or> GOOGLE_API_KEY c = Some [])
      then Inl (ValueError ''GOOGLE_API_KEY must be set when using google provider'')
      else Inr c)"

definition from_env :: "environ \<Rightarrow> py_error + agentos_config" where
  "from_env e =
     (let provider = py_lower (getenv e ''LLM_PROVIDER'' ''ollama'');
          ollama_base_url = sanitize_base_url (getenv e ''OLLAMA_BASE_URL'' ''http://192.168.4.102:11434'');
          reasoning_model =
            (if provider = ''ollama'' then getenv e ''MODEL_LOCAL_PLANNER'' ''gpt-oss:20b''
             else if provider = ''google'' then getenv e ''MODEL_PLANNER'' ''gemini-1.5-pro-latest''
             else ''mock'');
          parser_model =
            (if provider = ''ollama'' then getenv e ''MODEL_LOCAL_ACTOR'' ''llama3.1:8b''
             else if provider = ''google'' then getenv e ''MODEL_ACTOR'' ''gemini-1.5-flash-latest''
             else ''mock'');
          tool_model =
            (if provider = ''ollama'' then getenv e ''MODEL_LOCAL_ACTOR'' ''llama3.1:8b''
             else if provider = ''google'' then parser_model
             else ''mock'')
      in validate_config
           \<lparr>LLM_PROVIDER = provider,
            OLLAMA_BASE_URL = ollama_base_url,
            REASONING_MODEL = reasoning_model,
            PARSER_MODEL = parser_model,
            TOOL_MODEL = tool_model,
            EMBEDDING_MODEL = ''nomic-embed-text'',
            GOOGLE_API_KEY = e ''GOOGLE_API_KEY'',
            GOOGLE_REASONING_MODEL = getenv e ''MODEL_PLANNER'' ''gemini-1.5-pro-latest'',
            GOOGLE_PARSER_MODEL = getenv e ''MODEL_ACTOR'' ''gemini-1.5-flash-latest'',
            ENABLE_OBSERVABILITY = to_bool (e ''ENABLE_OBSERVABILITY'') True\<rparr>)"

text \<open>
  What the specification means by stripping a suffix: the string without its trailing
  slashes, then without one trailing \<open>/v1\<close> or \<open>/api\<close> when it ends in one, then again without
  trailing slashes.
\<close>

definition strip_slashes :: "string \<Rightarrow> string" where
  "strip_slashes s = rev (dropWhile (\<lambda>c. c = CHR ''/'') (rev s))"

definition strip_suffix_spec :: "string \<Rightarrow> string" where
  "strip_suffix_spec url =
     (let u = strip_slashes url
      in if py_endswith u ''/v1'' \<or> py_endswith u ''/api''
         then strip_slashes (take (length u - (if py_endswith u ''/v1'' then 3 else 4)) u)
         else u)"

section \<open>Memory manager (core/memory_manager.py)\<close>

text \<open>
  A Python \<open>dict\<close> with string keys, in insertion order: assigning to a key that is present
  replaces the value in place, a new key goes to the end.
\<close>

type_synonym py_dict = "(string \<times> string) list"

fun dict_set :: "py_dict \<Rightarrow> string \<Rightarrow> string \<Rightarrow> py_dict" where
  "dict_set [] k v = [(k, v)]"
| "dict_set ((k', v') # d) k v = (if k' = k then (k, v) # d else (k', v') # dict_set d k v)"

definition dict_of_rows :: "(string \<times> string) list \<Rightarrow> py_dict" where
  "dict_of_rows rows = foldl (\<lambda>d (k, v). dict_set d k v) [] rows"

text \<open>\<open>json.dumps(d, indent=2)\<close> for a dict of strings (ASCII output, the default).\<close>

definition bslash :: char where
  "bslash = CHR 0x5C"

definition hex_digit :: "nat \<Rightarrow> char" where
  "hex_digit d = ''0123456789abcdef'' ! d"

definition json_escape_char :: "char \<Rightarrow> string" where
  "json_escape_char c =
     (let n = (of_char c :: nat)
      in if n = 34 then [bslash, CHR 0x22]
         else if n = 92 then [bslash, bslash]
         else if 32 \<le> n \<and> n \<le> 126 then [c]
         else if n = 8 then [bslash, CHR ''b'']
         else if n = 9 then [bslash, CHR ''t'']
         else if n = 10 then [bslash, CHR ''n'']
         else if n = 12 then [bslash, CHR ''f'']
         else if n = 13 then [bslash, CHR ''r'']
         else bslash # ''u00'' @ [hex_digit (n div 16), hex_digit (n mod 16)])"

definition json_string :: "string \<Rightarrow> string" where
  "json_string s = dquote @ concat (map json_escape_char s) @ dquote"

definition json_dumps_indent2 :: "py_dict \<Rightarrow> string" where
  "json_dumps_indent2 d =
     (if d = [] then ''{}''
      else ''{'' @ nl
           @ py_join ('','' @ nl) (map (\<lambda>(k, v). ''  '' @ json_string k @ '': '' @ json_string v) d)
           @ nl @ ''}'')"

text \<open>\<open>len(content.split())\<close>: the number of whitespace-separated words.\<close>

fun py_words_aux :: "string \<Rightarrow> string \<Rightarrow> string list" where
  "py_words_aux cur [] = (if cur = [] then [] else [cur])"
| "py_words_aux cur (c # cs) =
     (if py_isspace c
      then (if cur = [] then py_words_aux [] cs else cur # py_words_aux [] cs)
      else py_words_aux (cur @ [c]) cs)"

definition py_words :: "string \<Rightarrow> string list" where
  "py_words s = py_words_aux [] s"

text \<open>The relational store: the \<open>user_facts\<close> and \<open>log_metadata\<close> tables, rows in rowid order.\<close>

record user_fact =
  fact_key :: string
  fact_value :: string
  fact_category :: string
  created_at :: string
  updated_at :: string

record log_meta =
  entry_type :: string
  content_hash :: string
  compacted :: bool
  token_count :: nat

record database =
  user_facts :: "user_fact list"
  log_metadata :: "log_meta list"

text \<open>The vector store: a table of records per table name; \<open>backend_ok\<close> is false when its
  operations raise.\<close>

record 'v memory_record =
  record_id :: string
  record_vector :: 'v
  record_text :: string
  record_metadata :: py_dict

record 'v lance =
  tables :: "string \<rightharpoonup> 'v memory_record list"
  backend_ok :: bool

record ('v, 'd) recalled =
  content :: string
  metadata :: py_dict
  distance :: 'd

text \<open>
  The state of a \<open>MemoryManager\<close>: the two files (\<open>None\<close> when the file does not exist), the
  database (\<open>None\<close> when it cannot be opened, so that every statement on it raises), and the
  vector-store connection \<open>lance_db\<close> (\<open>None\<close> when the backend is unavailable).
\<close>

record 'v memory_manager =
  mm_agent_name :: string
  now_file :: "string option"
  log_file :: "string option"
  db_file :: "database option"
  lance_db :: "'v lance option"

text \<open>
  What the memory manager reaches outside its own state: the clock (the formatted timestamp
  and the rendering of \<open>datetime.now().timestamp()\<close>), the first 16 hex digits of SHA-256, the
  embedding request (which returns a vector on every path), and the nearest-neighbour search
  of the vector store with its limit.
\<close>

record ('v, 'd) memory_env =
  clock :: string
  clock_stamp :: string
  sha16 :: "string \<Rightarrow> string"
  embed :: "string \<Rightarrow> 'v"
  nearest :: "'v \<Rightarrow> nat \<Rightarrow> 'v memory_record list \<Rightarrow> ('v memory_record \<times> 'd) list"

definition read_now :: "'v memory_manager \<Rightarrow> string" where
  "read_now m = (case now_file m of Some c \<Rightarrow> c | None \<Rightarrow> ''Status: Idle'')"

definition entry_separator :: string where
  "entry_separator = nl @ ''---'' @ nl"

definition read_log :: "'v memory_manager \<Rightarrow> nat option \<Rightarrow> string" where
  "read_log m last_n_entries =
     (case log_file m of
        None \<Rightarrow> []
      | Some c \<Rightarrow>
          (case last_n_entries of
             None \<Rightarrow> c
           | Some n \<Rightarrow>
               if n = 0 then c
               else py_join entry_separator (py_last_n n (py_split entry_separator c))))"

text \<open>
  \<open>append_log\<close>: the entry is appended to LOG.md, then a \<open>log_metadata\<close> row is stored; when the
  database raises, the exception is caught after the file has been written. The compaction
  check that follows only reads.
\<close>

definition log_entry :: "string \<Rightarrow> string \<Rightarrow> string \<Rightarrow> py_dict option \<Rightarrow> string" where
  "log_entry ts etype c md =
     nl @ ''## ['' @ etype @ ''] '' @ ts @ nl @ nl @ c @ nl
     @ (case md of
          None \<Rightarrow> []
        | Some d \<Rightarrow> if d = [] then [] else nl @ ''Metadata: '' @ json_dumps_indent2 d @ nl)
     @ nl @ ''---'' @ nl"

definition append_log ::
  "('v, 'd) memory_env \<Rightarrow> 'v memory_manager \<Rightarrow> string \<Rightarrow> string \<Rightarrow> py_dict option \<Rightarrow> bool \<times> 'v memory_manager" where
  "append_log env m etype c md =
     (let old = (case log_file m of None \<Rightarrow> [] | Some x \<Rightarrow> x);
          m1 = m\<lparr>log_file := Some (old @ log_entry (clock env) etype c md)\<rparr>
      in case db_file m1 of
           None \<Rightarrow> (False, m1)
         | Some db \<Rightarrow>
             (True,
              m1\<lparr>db_file :=
                   Some (db\<lparr>log_metadata := log_metadata db
                              @ [\<lparr>entry_type = etype, content_hash = sha16 env c,
                                  compacted = False, token_count = length (py_words c)\<rparr>]\<rparr>)\<rparr>))"

text \<open>\<open>INSERT OR REPLACE\<close> on the unique key: the row with that key is replaced by a new row.\<close>

definition upsert_fact :: "user_fact list \<Rightarrow> user_fact \<Rightarrow> user_fact list" where
  "upsert_fact rows r = filter (\<lambda>x. fact_key x \<noteq> fact_key r) rows @ [r]"

definition save_fact ::
  "('v, 'd) memory_env \<Rightarrow> 'v memory_manager \<Rightarrow> string \<Rightarrow> string \<Rightarrow> string \<Rightarrow> bool \<times> 'v memory_manager" where
  "save_fact env m k v cat =
     (case db_file m of
        None \<Rightarrow> (False, m)
      | Some db \<Rightarrow>
          (let row = \<lparr>fact_key = k, fact_value = v, fact_category = cat,
                      created_at = clock env, updated_at = clock env\<rparr>;
               m1 = m\<lparr>db_file := Some (db\<lparr>user_facts := upsert_fact (user_facts db) row\<rparr>)\<rparr>;
               m2 = snd (append_log env m1 ''SYSTEM''
                           (''Saved fact: '' @ k @ '' = '' @ v @ '' (category: '' @ cat @ '')'')
                           None)
           in (True, m2)))"

definition get_fact :: "'v memory_manager \<Rightarrow> string \<Rightarrow> string option" where
  "get_fact m k =
     (case db_file m of
        None \<Rightarrow> None
      | Some db \<Rightarrow>
          (case find (\<lambda>r. fact_key r = k) (user_facts db) of
             None \<Rightarrow> None
           | Some r \<Rightarrow> Some (fact_value r)))"

definition get_all_facts :: "'v memory_manager \<Rightarrow> string option \<Rightarrow> py_dict" where
  "get_all_facts m cat =
     (case db_file m of
        None \<Rightarrow> []
      | Some db \<Rightarrow>
          (let rows = (case cat of
                         None \<Rightarrow> user_facts db
                       | Some c \<Rightarrow>
                           if c = [] then user_facts db
                           else filter (\<lambda>r. fact_category r = c) (user_facts db))
           in dict_of_rows (map (\<lambda>r. (fact_key r, fact_value r)) rows)))"

text \<open>Cold memory.\<close>

definition memory_table :: "'v memory_manager \<Rightarrow> string" where
  "memory_table m = mm_agent_name m @ ''_memory''"

definition recall_memory ::
  "('v, 'd) memory_env \<Rightarrow> 'v memory_manager \<Rightarrow> string \<Rightarrow> nat \<Rightarrow> ('v, 'd) recalled list" where
  "recall_memory env m query n_results =
     (case lance_db m of
        None \<Rightarrow> []
      | Some db \<Rightarrow>
          if \<not> backend_ok db then []
          else
            (case tables db (memory_table m) of
               None \<Rightarrow> []
             | Some rows \<Rightarrow>
                 map (\<lambda>(r, d). \<lparr>content = record_text r, metadata = record_metadata r, distance = d\<rparr>)
                     (nearest env (embed env query) n_results rows)))"

definition store_memory ::
  "('v, 'd) memory_env \<Rightarrow> 'v memory_manager \<Rightarrow> string \<Rightarrow> py_dict option \<Rightarrow> bool \<times> 'v memory_manager" where
  "store_memory env m c md =
     (case lance_db m of
        None \<Rightarrow> (False, m)
      | Some db \<Rightarrow>
          if \<not> backend_ok db then (False, m)
          else
            (let meta0 = (case md of None \<Rightarrow> [] | Some d \<Rightarrow> d);
                 meta = dict_set (dict_set meta0 ''agent'' (mm_agent_name m)) ''stored_at'' (clock env);
                 row = \<lparr>record_id = ''memory_'' @ clock_stamp env, record_vector = embed env c,
                        record_text = c, record_metadata = meta\<rparr>;
                 old = (case tables db (memory_table m) of None \<Rightarrow> [] | Some rows \<Rightarrow> rows)
             in (True, m\<lparr>lance_db := Some (db\<lparr>tables := (tables db)(memory_table m \<mapsto> old @ [row])\<rparr>)\<rparr>)))"

text \<open>Context injection.\<close>

record memory_context =
  ctx_now :: string
  ctx_log :: string
  ctx_facts :: string

definition read_context :: "'v memory_manager \<Rightarrow> memory_context" where
  "read_context m =
     \<lparr>ctx_now = read_now m,
      ctx_log = read_log m (Some 20),
      ctx_facts = json_dumps_indent2 (get_all_facts m None)\<rparr>"

definition now_header :: string where
  "now_header = ''=== CURRENT MENTAL STATE (Do not ignore) ==='' @ nl @ ''You are currently working on:'' @ nl"

definition log_header :: string where
  "log_header = ''=== RECENT ACTIVITY LOG ==='' @ nl"

definition facts_header :: string where
  "facts_header = ''=== KNOWN USER FACTS ==='' @ nl"

definition format_context_for_prompt :: "'v memory_manager \<Rightarrow> string" where
  "format_context_for_prompt m =
     (let ctx = read_context m;
          formatted = now_header @ ctx_now ctx @ nl @ nl @ log_header @ ctx_log ctx @ nl @ nl
      in if ctx_facts ctx \<noteq> ''{}''
         then formatted @ facts_header @ ctx_facts ctx @ nl @ nl
         else formatted)"

section \<open>Derived notions used in the statements\<close>

text \<open>
  The states a run passes through: ticks are taken until the router terminates, a node
  raises or does not return, or the bound on the number of ticks is reached.
\<close>

fun run_states :: "nat \<Rightarrow> actor_env \<Rightarrow> auditor_env \<Rightarrow> agent_state \<Rightarrow> agent_state list" where
  "run_states 0 aenv denv st = [st]"
| "run_states (Suc n) aenv denv st =
     (case tick aenv denv st of
        Stepped st' \<Rightarrow> st # run_states n aenv denv st'
      | Terminated \<Rightarrow> [st]
      | Raised e \<Rightarrow> [st]
      | NoReturn \<Rightarrow> [st])"

text \<open>
  An instruction resolves to a registered skill when an agent is attached, the search finds
  a name in the instruction, and the agent's registry has a skill of that name.
\<close>

definition resolves_to_skill :: "actor_env \<Rightarrow> agent_state \<Rightarrow> string \<Rightarrow> bool" where
  "resolves_to_skill env st instr =
     (case agent_instance st of
        None \<Rightarrow> False
      | Some ag \<Rightarrow>
          (case skill_search env instr of
             None \<Rightarrow> False
           | Some skill_name \<Rightarrow> has_skill (registry ag) skill_name))"

section \<open>Step router and step nodes: properties\<close>

lemma py_index_nonneg:
  "0 \<le> i \<Longrightarrow> i < int (length xs) \<Longrightarrow> py_index xs i = Inr (xs ! nat i)"
  by (simp add: py_index_def Let_def)

text \<open>
  C3. The step router depends only on the cursor and the plan. For every state whose cursor
  is a valid (non-negative) position, it returns terminal when the cursor is at or past the
  end of the plan, Actor when the current step's role is "Actor", Auditor when it is
  "Auditor", and terminal for any other role value (an absent role included).
\<close>

theorem route_step_cases:
  assumes "0 \<le> get_index st"
  shows "route_step st =
     (if get_index st \<ge> int (length (get_plan st)) then Inr END
      else if role (get_plan st ! nat (get_index st)) = Some ''Actor'' then Inr ToActor
      else if role (get_plan st ! nat (get_index st)) = Some ''Auditor'' then Inr ToAuditor
      else Inr END)"
proof (cases "get_index st \<ge> int (length (get_plan st))")
  case True
  then show ?thesis by (simp add: route_step_def Let_def)
next
  case False
  with assms have "py_index (get_plan st) (get_index st) = Inr (get_plan st ! nat (get_index st))"
    by (simp add: py_index_nonneg)
  with False show ?thesis by (simp add: route_step_def Let_def)
qed

theorem route_step_cases_witness:
  "route_step \<lparr>plan = Some [\<lparr>role = Some ''Actor'', instruction = ''write hello.txt'', expected_outcome = None\<rparr>,
                             \<lparr>role = Some ''Auditor'', instruction = ''verify hello.txt'', expected_outcome = None\<rparr>],
               current_step_index = Some 1, tool_outputs = None, agent_instance = None\<rparr>
   = Inr ToAuditor"
  using route_step_cases [of "\<lparr>plan = Some [\<lparr>role = Some ''Actor'', instruction = ''write hello.txt'', expected_outcome = None\<rparr>,
                             \<lparr>role = Some ''Auditor'', instruction = ''verify hello.txt'', expected_outcome = None\<rparr>],
               current_step_index = Some 1, tool_outputs = None, agent_instance = None\<rparr>"]
  by (simp add: get_index_def get_plan_def)

lemma route_step_pure:
  "get_index st = get_index st' \<Longrightarrow> get_plan st = get_plan st' \<Longrightarrow> route_step st = route_step st'"
  by (simp add: route_step_def)

lemma route_step_raises:
  "route_step st = Inl e \<longleftrightarrow> (get_index st < - int (length (get_plan st)) \<and> e = IndexError)"
  by (auto simp: route_step_def py_index_def Let_def split: if_splits sum.splits)

lemma route_to_node:
  assumes "route_step st = Inr r" "r \<noteq> END"
  shows "get_index st < int (length (get_plan st))"
    and "\<exists>step. py_index (get_plan st) (get_index st) = Inr step \<and>
           (r = ToActor \<longrightarrow> role step = Some ''Actor'') \<and>
           (r = ToAuditor \<longrightarrow> role step = Some ''Auditor'')"
  using assms by (auto simp: route_step_def Let_def split: if_splits sum.splits)

lemma auditor_node_returns:
  assumes "get_index st < int (length (get_plan st))"
      and "py_index (get_plan st) (get_index st) = Inr step" and "role step = Some ''Auditor''"
  shows "auditor_node env st =
           Inr (\<lparr>upd_tool_outputs = None, upd_current_step_index = Some (get_index st + 1)\<rparr>,
                auditor_verify env step (previous_output st))"
  using assms by (simp add: auditor_node_def Let_def)

lemma get_index_merge:
  "upd_current_step_index u = Some i \<Longrightarrow> get_index (merge_update st u) = i"
  by (simp add: get_index_def merge_update_def)

lemma step_key_0: "step_key 0 = ''step_0''"
  by code_simp

lemma clean_code_plain: "clean_code ''print(1)'' = ''print(1)''"
  by code_simp

lemma not_exception_cases: "\<not> is_exception e \<Longrightarrow> \<exists>k. e = BaseException k"
  by (cases e) auto

lemma step_update_index [simp]:
  "upd_current_step_index (step_update st output) = Some (get_index st + 1)"
  by (simp add: step_update_def)

lemma actor_try_skill_raise:
  "actor_try_skill env st instr = (ev, Some (Inl e)) \<Longrightarrow> \<exists>k. e = BaseException k"
  by (auto simp: actor_try_skill_def dest: not_exception_cases
      split: option.splits if_splits sum.splits)

lemma actor_fallback_raise:
  "actor_fallback env instr = (ev, Some (Inl e)) \<Longrightarrow> \<exists>k. e = BaseException k"
  by (auto simp: actor_fallback_def Let_def split: foreign.splits)

lemma actor_node_on_step:
  assumes "get_index st < int (length (get_plan st))"
      and "py_index (get_plan st) (get_index st) = Inr step" and "role step = Some ''Actor''"
  shows "actor_node env st =
     (case actor_try_skill env st (instruction step) of
        (ev, None) \<Rightarrow> (ev, None)
      | (ev, Some (Inl e)) \<Rightarrow> (ev, Some (Inl e))
      | (ev, Some (Inr (Some skill_result))) \<Rightarrow>
          (ev, Some (Inr (step_update st (''Skill executed: '' @ skill_result))))
      | (ev, Some (Inr None)) \<Rightarrow>
          (case actor_fallback env (instruction step) of
             (ev', None) \<Rightarrow> (ev @ ev', None)
           | (ev', Some (Inl e)) \<Rightarrow> (ev @ ev', Some (Inl e))
           | (ev', Some (Inr output)) \<Rightarrow> (ev @ ev', Some (Inr (step_update st output)))))"
  using assms
  by (simp add: actor_node_def Let_def split: prod.splits option.splits sum.splits)

lemma actor_node_outcomes:
  assumes "get_index st < int (length (get_plan st))"
      and "py_index (get_plan st) (get_index st) = Inr step" and "role step = Some ''Actor''"
  shows "(\<exists>output. snd (actor_node env st) = Some (Inr (step_update st output)))
       \<or> (\<exists>k. snd (actor_node env st) = Some (Inl (BaseException k)))
       \<or> snd (actor_node env st) = None"
proof -
  obtain ev r where t: "actor_try_skill env st (instruction step) = (ev, r)"
    by (cases "actor_try_skill env st (instruction step)")
  obtain ev' r' where f: "actor_fallback env (instruction step) = (ev', r')"
    by (cases "actor_fallback env (instruction step)")
  show ?thesis
    using actor_try_skill_raise [of env st "instruction step" ev]
      actor_fallback_raise [of env "instruction step" ev'] t f
    unfolding actor_node_on_step [OF assms]
    by (auto split: option.splits sum.splits)
qed

lemma actor_node_update:
  assumes "get_index st < int (length (get_plan st))"
      and "py_index (get_plan st) (get_index st) = Inr step" and "role step = Some ''Actor''"
      and "snd (actor_node env st) = Some (Inr u)"
  shows "upd_current_step_index u = Some (get_index st + 1)"
  using actor_node_outcomes [OF assms(1,2,3), of env] assms(4) by auto

lemma tick_actor:
  "route_step st = Inr ToActor \<Longrightarrow>
   tick aenv denv st =
     (case snd (actor_node aenv st) of
        None \<Rightarrow> NoReturn
      | Some (Inl e) \<Rightarrow> Raised e
      | Some (Inr u) \<Rightarrow> Stepped (merge_update st u))"
  by (simp add: tick_def split: prod.splits option.splits sum.splits)

lemma step_nodes_advance:
  assumes "route_step st = Inr r" and "r \<noteq> END"
  shows "(r = ToActor \<longrightarrow>
            (\<forall>u. snd (actor_node aenv st) = Some (Inr u)
                 \<longrightarrow> upd_current_step_index u = Some (get_index st + 1)))
       \<and> (r = ToAuditor \<longrightarrow>
            (\<exists>u res. auditor_node denv st = Inr (u, res)
                      \<and> upd_current_step_index u = Some (get_index st + 1)))
       \<and> (\<forall>st'. tick aenv denv st = Stepped st' \<longrightarrow> get_index st' = get_index st + 1)
       \<and> ((\<exists>st'. tick aenv denv st = Stepped st')
          \<or> (r = ToActor \<and> (tick aenv denv st = NoReturn
                              \<or> (\<exists>k. tick aenv denv st = Raised (BaseException k)))))"
proof -
  from route_to_node [OF assms] obtain step where
    lt: "get_index st < int (length (get_plan st))" and
    ix: "py_index (get_plan st) (get_index st) = Inr step" and
    ra: "r = ToActor \<longrightarrow> role step = Some ''Actor''" and
    rd: "r = ToAuditor \<longrightarrow> role step = Some ''Auditor''"
    by blast
  show ?thesis
  proof (cases r)
    case END
    with assms show ?thesis by simp
  next
    case ToActor
    with ra have role: "role step = Some ''Actor''" by simp
    from assms ToActor have t: "tick aenv denv st =
       (case snd (actor_node aenv st) of
          None \<Rightarrow> NoReturn
        | Some (Inl e) \<Rightarrow> Raised e
        | Some (Inr u) \<Rightarrow> Stepped (merge_update st u))"
      by (simp add: tick_actor)
    from actor_node_outcomes [OF lt ix role, of aenv]
    show ?thesis
      using ToActor t by (auto simp: get_index_merge)
  next
    case ToAuditor
    with rd have "role step = Some ''Auditor''" by simp
    note d = auditor_node_returns [OF lt ix this, of denv]
    have "tick aenv denv st =
            Stepped (merge_update st \<lparr>upd_tool_outputs = None,
                                      upd_current_step_index = Some (get_index st + 1)\<rparr>)"
      using assms ToAuditor d by (simp add: tick_def)
    with d ToAuditor show ?thesis by (simp add: get_index_merge)
  qed
qed

lemma tick_advances:
  "tick aenv denv st = Stepped st' \<Longrightarrow> get_index st' = get_index st + 1"
proof -
  assume t: "tick aenv denv st = Stepped st'"
  then obtain r where r: "route_step st = Inr r" "r \<noteq> END"
    by (auto simp: tick_def split: sum.splits route.splits)
  from step_nodes_advance [OF r, of aenv denv] t show ?thesis by blast
qed

lemma run_states_indices:
  "map get_index (run_states n aenv denv st)
     = map (\<lambda>k. get_index st + int k) [0 ..< length (run_states n aenv denv st)]"
proof (induction n arbitrary: st)
  case 0
  show ?case by simp
next
  case (Suc n)
  show ?case
  proof (cases "tick aenv denv st")
    case (Stepped st')
    have "map (\<lambda>k. get_index st + int k) [0 ..< Suc (length (run_states n aenv denv st'))]
            = get_index st # map (\<lambda>k. get_index st' + int k) [0 ..< length (run_states n aenv denv st')]"
      using tick_advances [OF Stepped]
      by (simp add: upt_rec [of 0] map_Suc_upt [symmetric] del: upt_Suc)
    with Stepped Suc.IH [of st'] show ?thesis by simp
  qed simp_all
qed

text \<open>
  The Actor does return an update whenever the code it runs settles: the generated code
  and the hook of every skill of the attached agent return or raise an \<open>Exception\<close>.
\<close>

lemma skill_execute_settles:
  assumes "\<forall>hook. execute_func s = Some hook \<longrightarrow> settles (hook params)"
  shows "(\<exists>res. skill_execute s params = Some (Inr res))
       \<or> (\<exists>e. skill_execute s params = Some (Inl e) \<and> is_exception e)"
  using assms
  by (auto simp: skill_execute_def settles_def split: option.splits foreign.splits)

lemma actor_step_returns_when_code_settles:
  assumes "route_step st = Inr ToActor"
      and "\<forall>c. settles (exec_code env c)"
      and "\<forall>ag n s hook. agent_instance st = Some ag \<and> skills (registry ag) n = Some s
                          \<and> execute_func s = Some hook \<longrightarrow> settles (hook [])"
  shows "\<exists>output. snd (actor_node env st) = Some (Inr (step_update st output))"
proof -
  from route_to_node [OF assms(1)] obtain step where
    lt: "get_index st < int (length (get_plan st))" and
    ix: "py_index (get_plan st) (get_index st) = Inr step" and
    role: "role step = Some ''Actor''"
    by auto
  have f: "\<exists>ev out. actor_fallback env (instruction step) = (ev, Some (Inr out))"
    using assms(2) [rule_format, of "clean_code (llm_generate env actor_system_prompt (instruction step))"]
    by (auto simp: actor_fallback_def Let_def settles_def split: foreign.splits)
  have t: "\<exists>ev r. actor_try_skill env st (instruction step) = (ev, Some (Inr r))"
  proof (cases "agent_instance st")
    case None
    then show ?thesis by (simp add: actor_try_skill_def)
  next
    case (Some ag)
    show ?thesis
    proof (cases "skill_search env (instruction step)")
      case None
      with Some show ?thesis by (simp add: actor_try_skill_def)
    next
      case (Some nm) note nm = this
      show ?thesis
      proof (cases "skills (registry ag) nm")
        case None
        with \<open>agent_instance st = Some ag\<close> nm show ?thesis
          by (simp add: actor_try_skill_def has_skill_def dom_def)
      next
        case (Some s)
        have "\<forall>hook. execute_func s = Some hook \<longrightarrow> settles (hook [])"
          using assms(3) \<open>agent_instance st = Some ag\<close> Some by blast
        from skill_execute_settles [OF this] Some \<open>agent_instance st = Some ag\<close> nm
        show ?thesis
          by (auto simp: actor_try_skill_def has_skill_def agent_execute_skill_def
                execute_skill_def get_skill_def)
      qed
    qed
  qed
  from t f show ?thesis
    unfolding actor_node_on_step [OF lt ix role]
    by (auto split: option.splits)
qed

text \<open>
  C4. On every tick that the router sends to the Actor or to the Auditor, the partial state
  update the node returns sets \<open>current_step_index\<close> to the old index plus one, and the state
  after the tick has exactly that cursor. The Auditor returns such an update on every tick;
  the Actor returns one unless the code it runs leaves through an exception that is not an
  \<open>Exception\<close> or never returns, and then no update exists and the tick does not step.
\<close>

theorem step_nodes_advance_by_one:
  assumes "route_step st = Inr r" and "r \<noteq> END"
  shows "(r = ToActor \<longrightarrow>
            (\<forall>u. snd (actor_node aenv st) = Some (Inr u)
                 \<longrightarrow> upd_current_step_index u = Some (get_index st + 1)))
       \<and> (r = ToAuditor \<longrightarrow>
            (\<exists>u res. auditor_node denv st = Inr (u, res)
                      \<and> upd_current_step_index u = Some (get_index st + 1)))
       \<and> (\<forall>st'. tick aenv denv st = Stepped st' \<longrightarrow> get_index st' = get_index st + 1)
       \<and> ((\<exists>st'. tick aenv denv st = Stepped st')
          \<or> (r = ToActor \<and> (tick aenv denv st = NoReturn
                              \<or> (\<exists>k. tick aenv denv st = Raised (BaseException k)))))"
  using assms by (rule step_nodes_advance)


theorem step_nodes_advance_by_one_witness:
  "route_step
     \<lparr>plan = Some [\<lparr>role = Some ''Actor'', instruction = ''print one'', expected_outcome = None\<rparr>],
      current_step_index = Some 0, tool_outputs = None, agent_instance = None\<rparr> = Inr ToActor
   \<and> ToActor \<noteq> END
   \<and> snd (actor_node
     \<lparr>skill_search = (\<lambda>i. None), llm_generate = (\<lambda>sp up. ''print(1)''),
      exec_code = (\<lambda>c. Returned ())\<rparr>
     \<lparr>plan = Some [\<lparr>role = Some ''Actor'', instruction = ''print one'', expected_outcome = None\<rparr>],
      current_step_index = Some 0, tool_outputs = None, agent_instance = None\<rparr>)
     = Some (Inr \<lparr>upd_tool_outputs = Some [''step_0'' \<mapsto> ''Success''], upd_current_step_index = Some 1\<rparr>)
   \<and> upd_current_step_index
       \<lparr>upd_tool_outputs = Some [''step_0'' \<mapsto> ''Success''], upd_current_step_index = Some 1\<rparr> = Some 1
   \<and> (\<exists>st'. tick
     \<lparr>skill_search = (\<lambda>i. None), llm_generate = (\<lambda>sp up. ''print(1)''),
      exec_code = (\<lambda>c. Returned ())\<rparr>
     \<lparr>select_strategy = (\<lambda>i x p. ReplyFailed ''timeout''),
      files = \<lparr>path_exists = (\<lambda>p. False), read_file = (\<lambda>p. Inl ''missing'')\<rparr>\<rparr>
     \<lparr>plan = Some [\<lparr>role = Some ''Actor'', instruction = ''print one'', expected_outcome = None\<rparr>],
      current_step_index = Some 0, tool_outputs = None, agent_instance = None\<rparr> = Stepped st' \<and> get_index st' = 1)"
proof -
  let ?st = "\<lparr>plan = Some [\<lparr>role = Some ''Actor'', instruction = ''print one'', expected_outcome = None\<rparr>],
      current_step_index = Some 0, tool_outputs = None, agent_instance = None\<rparr>"
  let ?aenv = "\<lparr>skill_search = (\<lambda>i. None), llm_generate = (\<lambda>sp up. ''print(1)''),
      exec_code = (\<lambda>c. Returned ())\<rparr>"
  let ?denv = "\<lparr>select_strategy = (\<lambda>i x p. ReplyFailed ''timeout''),
      files = \<lparr>path_exists = (\<lambda>p. False), read_file = (\<lambda>p. Inl ''missing'')\<rparr>\<rparr>"
  let ?u = "\<lparr>upd_tool_outputs = Some [''step_0'' \<mapsto> ''Success''], upd_current_step_index = Some 1\<rparr>"
  have r: "route_step ?st = Inr ToActor"
    by (simp add: route_step_def get_index_def get_plan_def py_index_def)
  have n: "ToActor \<noteq> END" by simp
  have a: "snd (actor_node ?aenv ?st) = Some (Inr ?u)"
    by (simp add: actor_node_def actor_try_skill_def actor_fallback_def get_index_def
          get_plan_def get_tool_outputs_def py_index_def step_update_def step_key_0
          clean_code_plain)
  have t: "tick ?aenv ?denv ?st = Stepped (merge_update ?st ?u)"
    using r a by (simp add: tick_actor)
  from step_nodes_advance_by_one [OF r n, of ?aenv ?denv] r a t show ?thesis
    by (simp add: get_index_def)
qed

section \<open>Actor node: properties\<close>

lemma actor_try_skill_unresolved:
  "\<not> resolves_to_skill env st instr \<Longrightarrow> actor_try_skill env st instr = ([], Some (Inr None))"
  by (cases "agent_instance st"; cases "skill_search env instr")
     (simp_all add: resolves_to_skill_def actor_try_skill_def)

lemma actor_node_fallback:
  assumes "0 \<le> get_index st" and "get_index st < int (length (get_plan st))"
      and "role (get_plan st ! nat (get_index st)) = Some ''Actor''"
      and "actor_try_skill env st (instruction (get_plan st ! nat (get_index st)))
             = (ev, Some (Inr None))"
  shows "actor_node env st =
     (let idx = get_index st;
          instr = instruction (get_plan st ! nat idx);
          cleaned = clean_code (llm_generate env actor_system_prompt instr)
      in (ev @ [LLMGenerate actor_system_prompt instr, Exec cleaned],
          (case exec_code env cleaned of
             Returned x \<Rightarrow>
               Some (Inr \<lparr>upd_tool_outputs = Some ((get_tool_outputs st)(step_key idx \<mapsto> ''Success'')),
                      upd_current_step_index = Some (idx + 1)\<rparr>)
           | RaisedException m \<Rightarrow>
               Some (Inr \<lparr>upd_tool_outputs = Some ((get_tool_outputs st)(step_key idx \<mapsto> ''Error: '' @ m)),
                      upd_current_step_index = Some (idx + 1)\<rparr>)
           | Escaped k \<Rightarrow> Some (Inl (BaseException k))
           | NeverReturns \<Rightarrow> None)))"
proof -
  from assms(1,2) have ix: "py_index (get_plan st) (get_index st) = Inr (get_plan st ! nat (get_index st))"
    by (simp add: py_index_nonneg)
  show ?thesis
    unfolding actor_node_on_step [OF assms(2) ix assms(3)]
    using assms(4)
    by (simp add: actor_fallback_def step_update_def Let_def split: foreign.splits)
qed

lemma skill_execute_hook_raises:
  "execute_func s = Some hook \<Longrightarrow> hook params = RaisedException msg
   \<Longrightarrow> \<exists>e. skill_execute s params = Some (Inl e) \<and> is_exception e"
  by (auto simp: skill_execute_def split: option.splits)

lemma actor_try_skill_raises:
  assumes "agent_instance st = Some ag" and "skill_search env instr = Some nm"
      and "get_skill (registry ag) nm = Some s"
      and "execute_func s = Some hook" and "hook [] = RaisedException msg"
  shows "actor_try_skill env st instr = ([SkillCall nm], Some (Inr None))"
proof -
  from skill_execute_hook_raises [OF assms(4,5)] obtain e where
    "skill_execute s [] = Some (Inl e)" and "is_exception e" by blast
  with assms(3) have "agent_execute_skill ag nm [] = Some (Inl e)"
    by (simp add: agent_execute_skill_def execute_skill_def)
  moreover from assms(3) have "has_skill (registry ag) nm"
    by (auto simp: has_skill_def get_skill_def)
  ultimately show ?thesis using assms(1,2) \<open>is_exception e\<close>
    by (simp add: actor_try_skill_def)
qed

text \<open>
  C1 (as the code has it). No feature flag exists: for every Actor step whose instruction
  does not resolve to a registered skill, the Actor asks the LLM for code, cleans the
  response and executes it. When the execution completes, the step records "Success" in
  \<open>tool_outputs["step_i"]\<close>; when it raises an \<open>Exception\<close>, it records "Error: ..."; in both
  cases the cursor advances by one. When the executed code leaves through an exception that
  is not an \<open>Exception\<close> (\<open>sys.exit\<close>), the node raises it and records nothing; when the code
  never returns, neither does the node.
\<close>

theorem actor_executes_generated_code:
  assumes "0 \<le> get_index st" and "get_index st < int (length (get_plan st))"
      and "role (get_plan st ! nat (get_index st)) = Some ''Actor''"
      and "\<not> resolves_to_skill env st (instruction (get_plan st ! nat (get_index st)))"
  shows "actor_node env st =
     (let idx = get_index st;
          instr = instruction (get_plan st ! nat idx);
          cleaned = clean_code (llm_generate env actor_system_prompt instr)
      in ([LLMGenerate actor_system_prompt instr, Exec cleaned],
          (case exec_code env cleaned of
             Returned x \<Rightarrow>
               Some (Inr \<lparr>upd_tool_outputs = Some ((get_tool_outputs st)(step_key idx \<mapsto> ''Success'')),
                      upd_current_step_index = Some (idx + 1)\<rparr>)
           | RaisedException m \<Rightarrow>
               Some (Inr \<lparr>upd_tool_outputs = Some ((get_tool_outputs st)(step_key idx \<mapsto> ''Error: '' @ m)),
                      upd_current_step_index = Some (idx + 1)\<rparr>)
           | Escaped k \<Rightarrow> Some (Inl (BaseException k))
           | NeverReturns \<Rightarrow> None)))"
  using actor_node_fallback [OF assms(1,2,3) actor_try_skill_unresolved [OF assms(4)]]
  by simp

theorem actor_executes_generated_code_witness:
  "actor_node
     \<lparr>skill_search = (\<lambda>i. None), llm_generate = (\<lambda>sp up. ''print(1)''),
      exec_code = (\<lambda>c. RaisedException ''boom'')\<rparr>
     \<lparr>plan = Some [\<lparr>role = Some ''Actor'', instruction = ''print one'', expected_outcome = None\<rparr>],
      current_step_index = Some 0, tool_outputs = None, agent_instance = None\<rparr>
   = ([LLMGenerate actor_system_prompt ''print one'', Exec ''print(1)''],
      Some (Inr \<lparr>upd_tool_outputs = Some [''step_0'' \<mapsto> ''Error: boom''],
                 upd_current_step_index = Some 1\<rparr>))"
  using actor_executes_generated_code
    [of "\<lparr>plan = Some [\<lparr>role = Some ''Actor'', instruction = ''print one'', expected_outcome = None\<rparr>],
      current_step_index = Some 0, tool_outputs = None, agent_instance = None\<rparr>"
        "\<lparr>skill_search = (\<lambda>i. None), llm_generate = (\<lambda>sp up. ''print(1)''),
      exec_code = (\<lambda>c. RaisedException ''boom'')\<rparr>"]
  by (simp add: get_index_def get_plan_def get_tool_outputs_def resolves_to_skill_def
        step_key_0 clean_code_plain)

text \<open>
  The claim as the specification words it fails: with no agent attached and no setting of
  any kind enabled, the Actor executes the generated code and records its outcome.
\<close>

theorem actor_executes_without_flag:
  "actor_node
     \<lparr>skill_search = (\<lambda>i. None), llm_generate = (\<lambda>sp up. ''print(1)''),
      exec_code = (\<lambda>c. Returned ())\<rparr>
     \<lparr>plan = Some [\<lparr>role = Some ''Actor'', instruction = ''print one'', expected_outcome = None\<rparr>],
      current_step_index = Some 0, tool_outputs = None, agent_instance = None\<rparr>
   = ([LLMGenerate actor_system_prompt ''print one'', Exec ''print(1)''],
      Some (Inr \<lparr>upd_tool_outputs = Some [''step_0'' \<mapsto> ''Success''],
                 upd_current_step_index = Some 1\<rparr>))"
  by (simp add: actor_node_def actor_try_skill_def actor_fallback_def get_index_def get_plan_def
        get_tool_outputs_def py_index_def step_update_def step_key_0 clean_code_plain)

text \<open>Generated code that calls \<open>sys.exit\<close>: the node raises and no update is returned.\<close>

lemma actor_generated_code_exits:
  "actor_node
     \<lparr>skill_search = (\<lambda>i. None), llm_generate = (\<lambda>sp up. ''print(1)''),
      exec_code = (\<lambda>c. Escaped ''SystemExit'')\<rparr>
     \<lparr>plan = Some [\<lparr>role = Some ''Actor'', instruction = ''print one'', expected_outcome = None\<rparr>],
      current_step_index = Some 0, tool_outputs = None, agent_instance = None\<rparr>
   = ([LLMGenerate actor_system_prompt ''print one'', Exec ''print(1)''],
      Some (Inl (BaseException ''SystemExit'')))"
  by (simp add: actor_node_def actor_try_skill_def actor_fallback_def get_index_def get_plan_def
        get_tool_outputs_def py_index_def step_update_def step_key_0 clean_code_plain)

text \<open>
  C2 (as the code has it). When the Actor invokes a registered skill whose hook raises an
  \<open>Exception\<close>, the exception is caught and the Actor falls back to code generation. When the
  generated code completes or raises an \<open>Exception\<close>, \<open>tool_outputs["step_i"]\<close> records
  "Success" or "Error: ..." (the outcome of the generated code, not the
  skill-execution-failed message), the cursor advances by one and the node returns
  normally. When the generated code leaves through an exception that is not an \<open>Exception\<close>,
  the node raises it and records nothing; when it never returns, neither does the node.
\<close>

theorem actor_skill_failure_falls_back:
  assumes "0 \<le> get_index st" and "get_index st < int (length (get_plan st))"
      and "role (get_plan st ! nat (get_index st)) = Some ''Actor''"
      and "agent_instance st = Some ag"
      and "skill_search env (instruction (get_plan st ! nat (get_index st))) = Some nm"
      and "get_skill (registry ag) nm = Some s"
      and "execute_func s = Some hook" and "hook [] = RaisedException msg"
  shows "actor_node env st =
     (let idx = get_index st;
          instr = instruction (get_plan st ! nat idx);
          cleaned = clean_code (llm_generate env actor_system_prompt instr)
      in ([SkillCall nm, LLMGenerate actor_system_prompt instr, Exec cleaned],
          (case exec_code env cleaned of
             Returned x \<Rightarrow>
               Some (Inr \<lparr>upd_tool_outputs = Some ((get_tool_outputs st)(step_key idx \<mapsto> ''Success'')),
                      upd_current_step_index = Some (idx + 1)\<rparr>)
           | RaisedException m \<Rightarrow>
               Some (Inr \<lparr>upd_tool_outputs = Some ((get_tool_outputs st)(step_key idx \<mapsto> ''Error: '' @ m)),
                      upd_current_step_index = Some (idx + 1)\<rparr>)
           | Escaped k \<Rightarrow> Some (Inl (BaseException k))
           | NeverReturns \<Rightarrow> None)))"
  using actor_node_fallback [OF assms(1,2,3) actor_try_skill_raises [OF assms(4,5,6,7,8)]]
  by simp

theorem actor_skill_failure_falls_back_witness:
  "actor_node
     \<lparr>skill_search = (\<lambda>i. if i = ''run backup'' then Some ''backup'' else None),
      llm_generate = (\<lambda>sp up. ''print(1)''), exec_code = (\<lambda>c. RaisedException ''boom'')\<rparr>
     \<lparr>plan = Some [\<lparr>role = Some ''Actor'', instruction = ''run backup'', expected_outcome = None\<rparr>],
      current_step_index = Some 0, tool_outputs = Some Map.empty,
      agent_instance = Some \<lparr>agent_name = ''finn'',
      registry = \<lparr>registry_agent_name = ''finn'',
        skills = [''backup'' \<mapsto> \<lparr>name = ''backup'', description = ''copy the data'', agent = ''finn'', category = ''general'',
        module_path = ''agents/finn/skills/backup.py'', parameters = [], tags = [], version = ''1.0.0'',
        is_core = False, overrides_core = False, prompt_instructions = None,
        execute_func = Some (\<lambda>params. RaisedException ''no space'')\<rparr>],
        core_skills = Map.empty,
        skills_by_agent = [''finn'' \<mapsto> [''backup'']],
        skills_by_category = [''general'' \<mapsto> [''backup'']],
        initialized = True\<rparr>\<rparr>\<rparr>
   = ([SkillCall ''backup'', LLMGenerate actor_system_prompt ''run backup'', Exec ''print(1)''],
      Some (Inr \<lparr>upd_tool_outputs = Some [''step_0'' \<mapsto> ''Error: boom''],
                 upd_current_step_index = Some 1\<rparr>))"
  using actor_skill_failure_falls_back
    [of "\<lparr>plan = Some [\<lparr>role = Some ''Actor'', instruction = ''run backup'', expected_outcome = None\<rparr>],
      current_step_index = Some 0, tool_outputs = Some Map.empty,
      agent_instance = Some \<lparr>agent_name = ''finn'',
      registry = \<lparr>registry_agent_name = ''finn'',
        skills = [''backup'' \<mapsto> \<lparr>name = ''backup'', description = ''copy the data'', agent = ''finn'', category = ''general'',
        module_path = ''agents/finn/skills/backup.py'', parameters = [], tags = [], version = ''1.0.0'',
        is_core = False, overrides_core = False, prompt_instructions = None,
        execute_func = Some (\<lambda>params. RaisedException ''no space'')\<rparr>],
        core_skills = Map.empty,
        skills_by_agent = [''finn'' \<mapsto> [''backup'']],
        skills_by_category = [''general'' \<mapsto> [''backup'']],
        initialized = True\<rparr>\<rparr>\<rparr>"
        "\<lparr>agent_name = ''finn'',
      registry = \<lparr>registry_agent_name = ''finn'',
        skills = [''backup'' \<mapsto> \<lparr>name = ''backup'', description = ''copy the data'', agent = ''finn'', category = ''general'',
        module_path = ''agents/finn/skills/backup.py'', parameters = [], tags = [], version = ''1.0.0'',
        is_core = False, overrides_core = False, prompt_instructions = None,
        execute_func = Some (\<lambda>params. RaisedException ''no space'')\<rparr>],
        core_skills = Map.empty,
        skills_by_agent = [''finn'' \<mapsto> [''backup'']],
        skills_by_category = [''general'' \<mapsto> [''backup'']],
        initialized = True\<rparr>\<rparr>"
        "\<lparr>skill_search = (\<lambda>i. if i = ''run backup'' then Some ''backup'' else None),
      llm_generate = (\<lambda>sp up. ''print(1)''), exec_code = (\<lambda>c. RaisedException ''boom'')\<rparr>"
        "''backup''"
        "\<lparr>name = ''backup'', description = ''copy the data'', agent = ''finn'', category = ''general'',
        module_path = ''agents/finn/skills/backup.py'', parameters = [], tags = [], version = ''1.0.0'',
        is_core = False, overrides_core = False, prompt_instructions = None,
        execute_func = Some (\<lambda>params. RaisedException ''no space'')\<rparr>"
        "\<lambda>params. RaisedException ''no space''" "''no space''"]
  by (simp add: get_index_def get_plan_def get_tool_outputs_def get_skill_def
        step_key_0 clean_code_plain)

text \<open>
  The claim as the specification words it fails: the skill \<open>backup\<close> raises, its
  skill-execution-failed message is not what \<open>tool_outputs["step_0"]\<close> holds afterwards; the
  step records the outcome of the generated code.
\<close>

theorem actor_skill_failure_not_recorded:
  "agent_execute_skill
     \<lparr>agent_name = ''finn'',
      registry = \<lparr>registry_agent_name = ''finn'',
        skills = [''backup'' \<mapsto> \<lparr>name = ''backup'', description = ''copy the data'', agent = ''finn'', category = ''general'',
        module_path = ''agents/finn/skills/backup.py'', parameters = [], tags = [], version = ''1.0.0'',
        is_core = False, overrides_core = False, prompt_instructions = None,
        execute_func = Some (\<lambda>params. RaisedException ''disk full'')\<rparr>],
        core_skills = Map.empty,
        skills_by_agent = [''finn'' \<mapsto> [''backup'']],
        skills_by_category = [''general'' \<mapsto> [''backup'']],
        initialized = True\<rparr>\<rparr>
     ''backup'' []
   = Some (Inl (RuntimeError (''Skill '' @ squote @ ''backup'' @ squote @ '' execution failed: disk full'')))
   \<and> actor_node
     \<lparr>skill_search = (\<lambda>i. if i = ''run backup'' then Some ''backup'' else None),
      llm_generate = (\<lambda>sp up. ''print(1)''), exec_code = (\<lambda>c. Returned ())\<rparr>
     \<lparr>plan = Some [\<lparr>role = Some ''Actor'', instruction = ''run backup'', expected_outcome = None\<rparr>],
      current_step_index = Some 0, tool_outputs = Some Map.empty,
      agent_instance = Some \<lparr>agent_name = ''finn'',
      registry = \<lparr>registry_agent_name = ''finn'',
        skills = [''backup'' \<mapsto> \<lparr>name = ''backup'', description = ''copy the data'', agent = ''finn'', category = ''general'',
        module_path = ''agents/finn/skills/backup.py'', parameters = [], tags = [], version = ''1.0.0'',
        is_core = False, overrides_core = False, prompt_instructions = None,
        execute_func = Some (\<lambda>params. RaisedException ''disk full'')\<rparr>],
        core_skills = Map.empty,
        skills_by_agent = [''finn'' \<mapsto> [''backup'']],
        skills_by_category = [''general'' \<mapsto> [''backup'']],
        initialized = True\<rparr>\<rparr>\<rparr>
   = ([SkillCall ''backup'', LLMGenerate actor_system_prompt ''run backup'', Exec ''print(1)''],
      Some (Inr \<lparr>upd_tool_outputs = Some [''step_0'' \<mapsto> ''Success''],
                 upd_current_step_index = Some 1\<rparr>))"
  by (simp add: actor_node_def actor_try_skill_def actor_fallback_def get_index_def get_plan_def
        get_tool_outputs_def py_index_def step_update_def step_key_0 clean_code_plain has_skill_def
        agent_execute_skill_def execute_skill_def get_skill_def skill_execute_def)

section \<open>Auditor fallback and audit predicates: properties\<close>

lemma str_contains_iff: "str_contains w s \<longleftrightarrow> (\<exists>u v. s = u @ w @ v)"
proof (induction s)
  case Nil
  show ?case by auto
next
  case (Cons c cs)
  show ?case
  proof
    assume "str_contains w (c # cs)"
    then consider "take (length w) (c # cs) = w" | "str_contains w cs" by auto
    then show "\<exists>u v. c # cs = u @ w @ v"
    proof cases
      case 1
      then have "c # cs = [] @ w @ drop (length w) (c # cs)"
        by (metis append_Nil append_take_drop_id)
      then show ?thesis by blast
    next
      case 2
      with Cons.IH obtain u v where "cs = u @ w @ v" by blast
      then have "c # cs = (c # u) @ w @ v" by simp
      then show ?thesis by blast
    qed
  next
    assume "\<exists>u v. c # cs = u @ w @ v"
    then obtain u v where e: "c # cs = u @ w @ v" by blast
    show "str_contains w (c # cs)"
    proof (cases u)
      case Nil
      with e have "take (length w) (c # cs) = w" by simp
      then show ?thesis by simp
    next
      case (Cons a u')
      with e have "cs = u' @ w @ v" by simp
      with Cons.IH have "str_contains w cs" by blast
      then show ?thesis by simp
    qed
  qed
qed

lemma contains_lower_iff:
  "str_contains w (py_lower s) \<longleftrightarrow> (\<exists>u x v. s = u @ x @ v \<and> py_lower x = w)"
proof
  assume "str_contains w (py_lower s)"
  then obtain u v where "map lower_char s = u @ (w @ v)"
    by (auto simp: str_contains_iff py_lower_def)
  then obtain u' r where s: "s = u' @ r" and r: "w @ v = map lower_char r"
    unfolding map_eq_append_conv by blast
  from r have "map lower_char r = w @ v" by simp
  then obtain x v' where "r = x @ v'" and "w = map lower_char x"
    unfolding map_eq_append_conv by blast
  with s have "s = u' @ x @ v' \<and> py_lower x = w"
    by (simp add: py_lower_def)
  then show "\<exists>u x v. s = u @ x @ v \<and> py_lower x = w" by blast
next
  assume "\<exists>u x v. s = u @ x @ v \<and> py_lower x = w"
  then obtain u x v where "s = u @ x @ v" and "py_lower x = w" by blast
  then have "py_lower s = py_lower u @ w @ py_lower v" by (auto simp: py_lower_def)
  then show "str_contains w (py_lower s)" unfolding str_contains_iff by blast
qed

lemma verify_tool_output_success_cases:
  "(if \<exists>u x v. out = u @ x @ v \<and> py_lower x \<in> {''error'', ''exception'', ''failed''}
    then verify_tool_output_success out
           = \<lparr>passed = False, message = ''Previous step reported error: '' @ out, severity = ERROR\<rparr>
    else verify_tool_output_success out
           = \<lparr>passed = True, message = ''Previous step executed successfully.'', severity = INFO\<rparr>)"
proof -
  have "(\<exists>u x v. out = u @ x @ v \<and> py_lower x \<in> {''error'', ''exception'', ''failed''})
        \<longleftrightarrow> (str_contains ''error'' (py_lower out) \<or> str_contains ''exception'' (py_lower out)
             \<or> str_contains ''failed'' (py_lower out))"
    unfolding contains_lower_iff by blast
  then show ?thesis
    by (simp add: verify_tool_output_success_def mk_audit_def)
qed

lemma audit_dispatch_default:
  "strategy_name \<notin> {Some ''verify_file_exists'', Some ''verify_file_content_contains'',
                      Some ''verify_file_does_not_exist''}
   \<Longrightarrow> audit_dispatch fs strategy_name args prev = Inr (verify_tool_output_success prev)"
  by (simp add: audit_dispatch_def)

text \<open>
  C9. Whenever the strategy name the LLM selected is not one of \<open>verify_file_exists\<close>,
  \<open>verify_file_content_contains\<close>, \<open>verify_file_does_not_exist\<close> (an absent name included), the
  Auditor step reports \<open>verify_tool_output_success\<close> of the previous step's output; that result
  is passed=false with severity ERROR exactly when the output contains "error", "exception"
  or "failed" in any mix of cases, and passed=true with severity INFO otherwise.
\<close>

theorem auditor_unknown_strategy_fallback:
  assumes "0 \<le> get_index st" and "get_index st < int (length (get_plan st))"
      and "step = get_plan st ! nat (get_index st)"
      and "role step = Some ''Auditor''"
      and "select_strategy env (instruction step)
             (case expected_outcome step of None \<Rightarrow> [] | Some x \<Rightarrow> x) (previous_output st)
           = Reply strategy_name args"
      and "strategy_name \<notin> {Some ''verify_file_exists'', Some ''verify_file_content_contains'',
                              Some ''verify_file_does_not_exist''}"
  shows "auditor_node env st =
           Inr (\<lparr>upd_tool_outputs = None, upd_current_step_index = Some (get_index st + 1)\<rparr>,
                Some (verify_tool_output_success (previous_output st)))
       \<and> (if \<exists>u x v. previous_output st = u @ x @ v
                       \<and> py_lower x \<in> {''error'', ''exception'', ''failed''}
          then \<not> passed (verify_tool_output_success (previous_output st))
               \<and> severity (verify_tool_output_success (previous_output st)) = ERROR
          else passed (verify_tool_output_success (previous_output st))
               \<and> severity (verify_tool_output_success (previous_output st)) = INFO)"
proof -
  from assms(1,2,3) have ix: "py_index (get_plan st) (get_index st) = Inr step"
    by (simp add: py_index_nonneg)
  have "auditor_verify env step (previous_output st)
          = Some (verify_tool_output_success (previous_output st))"
    using assms(5) audit_dispatch_default [OF assms(6)]
    by (simp add: auditor_verify_def)
  with auditor_node_returns [OF assms(2) ix assms(4), of env]
  have "auditor_node env st =
           Inr (\<lparr>upd_tool_outputs = None, upd_current_step_index = Some (get_index st + 1)\<rparr>,
                Some (verify_tool_output_success (previous_output st)))"
    by simp
  moreover have "(if \<exists>u x v. previous_output st = u @ x @ v
                       \<and> py_lower x \<in> {''error'', ''exception'', ''failed''}
          then \<not> passed (verify_tool_output_success (previous_output st))
               \<and> severity (verify_tool_output_success (previous_output st)) = ERROR
          else passed (verify_tool_output_success (previous_output st))
               \<and> severity (verify_tool_output_success (previous_output st)) = INFO)"
    using verify_tool_output_success_cases [of "previous_output st"]
    by (simp split: if_splits)
  ultimately show ?thesis by simp
qed


lemma verify_error_boom:
  "verify_tool_output_success ''Error: boom''
     = \<lparr>passed = False, message = ''Previous step reported error: Error: boom'', severity = ERROR\<rparr>"
  by code_simp

theorem auditor_unknown_strategy_fallback_witness:
  "auditor_node
     \<lparr>select_strategy = (\<lambda>i x p. Reply (Some ''check_everything'') None),
      files = \<lparr>path_exists = (\<lambda>p. False), read_file = (\<lambda>p. Inl ''missing'')\<rparr>\<rparr>
     \<lparr>plan = Some [\<lparr>role = Some ''Actor'', instruction = ''write hello.txt'', expected_outcome = None\<rparr>,
                   \<lparr>role = Some ''Auditor'', instruction = ''check the step'', expected_outcome = Some ''done''\<rparr>],
      current_step_index = Some 1, tool_outputs = Some [''step_0'' \<mapsto> ''Error: boom''],
      agent_instance = None\<rparr>
   = Inr (\<lparr>upd_tool_outputs = None, upd_current_step_index = Some 2\<rparr>,
          Some \<lparr>passed = False, message = ''Previous step reported error: Error: boom'',
                severity = ERROR\<rparr>)"
  using auditor_unknown_strategy_fallback
    [of "\<lparr>plan = Some [\<lparr>role = Some ''Actor'', instruction = ''write hello.txt'', expected_outcome = None\<rparr>,
                   \<lparr>role = Some ''Auditor'', instruction = ''check the step'', expected_outcome = Some ''done''\<rparr>],
      current_step_index = Some 1, tool_outputs = Some [''step_0'' \<mapsto> ''Error: boom''],
      agent_instance = None\<rparr>"
        "\<lparr>role = Some ''Auditor'', instruction = ''check the step'', expected_outcome = Some ''done''\<rparr>"
        "\<lparr>select_strategy = (\<lambda>i x p. Reply (Some ''check_everything'') None),
      files = \<lparr>path_exists = (\<lambda>p. False), read_file = (\<lambda>p. Inl ''missing'')\<rparr>\<rparr>"
        "Some ''check_everything''" "None"]
  by (simp add: get_index_def get_plan_def get_tool_outputs_def previous_output_def
        step_key_0 verify_error_boom)

section \<open>Skill registry: properties\<close>

lemma register_skill_core_index:
  assumes inv: "\<forall>n c. skills r n = Some c \<and> is_core c \<longrightarrow> core_skills r n = Some c"
  shows "\<forall>n c. skills (snd (register_skill r s)) n = Some c \<and> is_core c
                \<longrightarrow> core_skills (snd (register_skill r s)) n = Some c"
  using inv
  by (auto simp: register_skill_def Let_def mark_override_def split: option.splits if_splits)

lemma register_all_core_index:
  assumes "\<forall>n c. skills r n = Some c \<and> is_core c \<longrightarrow> core_skills r n = Some c"
  shows "\<forall>n c. skills (register_all r ss) n = Some c \<and> is_core c
                \<longrightarrow> core_skills (register_all r ss) n = Some c"
  using assms
proof (induction ss arbitrary: r)
  case Nil
  then show ?case by (simp add: register_all_def)
next
  case (Cons s ss)
  from register_skill_core_index [OF Cons.prems]
  have "\<forall>n c. skills (register_all (snd (register_skill r s)) ss) n = Some c \<and> is_core c
                \<longrightarrow> core_skills (register_all (snd (register_skill r s)) ss) n = Some c"
    by (rule Cons.IH)
  then show ?case by (simp add: register_all_def)
qed

lemma new_registry_core_index:
  "\<forall>n c. skills (new_registry an) n = Some c \<and> is_core c
          \<longrightarrow> core_skills (new_registry an) n = Some c"
  by (simp add: new_registry_def)

lemma register_override:
  assumes "skills r (name s) = Some c" and "is_core c" and "\<not> is_core s"
  shows "register_skill r s =
           (s\<lparr>overrides_core := True\<rparr>,
            r\<lparr>skills := (skills r)(name s \<mapsto> s\<lparr>overrides_core := True\<rparr>),
              core_skills := core_skills r,
              skills_by_agent := index_add (skills_by_agent r) (agent s) (name s),
              skills_by_category := index_add (skills_by_category r) (category s) (name s)\<rparr>)"
  using assms by (simp add: register_skill_def mark_override_def Let_def)

text \<open>
  Where the registration does track the override: the entry under the name in the primary
  index is a core skill. Then the new non-core skill gets \<open>overrides_core\<close>, replaces the
  primary entry, and the core skill stays in the core index.
\<close>

lemma register_skill_over_core_entry:
  assumes "r = register_all (new_registry an) ss"
      and "get_skill r (name s) = Some c" and "is_core c" and "\<not> is_core s"
      and "register_skill r s = (s', r')"
  shows "s' = s\<lparr>overrides_core := True\<rparr> \<and> overrides_core s'
       \<and> get_skill r' (name s) = Some s' \<and> \<not> is_core s'
       \<and> core_skills r' (name s) = Some c"
proof -
  from assms(2) have sk: "skills r (name s) = Some c" by (simp add: get_skill_def)
  from register_all_core_index [OF new_registry_core_index, of an ss] assms(1) sk assms(3)
  have core: "core_skills r (name s) = Some c" by blast
  from register_override [OF sk assms(3,4)] assms(5)
  have "s' = s\<lparr>overrides_core := True\<rparr>"
    and "r' = r\<lparr>skills := (skills r)(name s \<mapsto> s\<lparr>overrides_core := True\<rparr>),
              core_skills := core_skills r,
              skills_by_agent := index_add (skills_by_agent r) (agent s) (name s),
              skills_by_category := index_add (skills_by_category r) (category s) (name s)\<rparr>"
    by simp_all
  with core assms(4) show ?thesis by (simp add: get_skill_def)
qed

text \<open>
  In every registry state, registering a non-core skill makes \<open>get_skill\<close> return it (as the
  call leaves it) and does not touch the core index.
\<close>

lemma register_non_core_indices:
  assumes "\<not> is_core s" and "register_skill r s = (s', r')"
  shows "get_skill r' (name s) = Some s' \<and> core_skills r' = core_skills r"
  using assms
  by (auto simp: register_skill_def mark_override_def get_skill_def Let_def split: option.splits)

text \<open>
  C8. A registry state in which the core skill \<open>file-operations\<close> is registered and has been
  overridden once: the core skill is in the core index, the primary index holds the first
  agent skill. Registering a second non-core skill of that name makes \<open>get_skill\<close> return the
  new skill and leaves the core skill in the core index, but \<open>overrides_core\<close> of the new
  skill stays false: the registration looks only at the primary index, finds a non-core
  entry and takes the duplicate branch.
\<close>

theorem register_skill_override_untracked:
  "core_skills
     (register_all (new_registry ''finn'')
        [\<lparr>name = ''file-operations'', description = ''read and write files'', agent = ''core'',
       category = ''general'', module_path = ''core/skills/file-operations'', parameters = [], tags = [],
       version = ''1.0.0'', is_core = True, overrides_core = False, prompt_instructions = None,
       execute_func = Some (\<lambda>params. Returned ''core hook'')\<rparr>,
         \<lparr>name = ''file-operations'', description = ''read and write files'', agent = ''finn'',
       category = ''general'', module_path = ''agents/finn/skills/file-operations'', parameters = [], tags = [],
       version = ''1.0.0'', is_core = False, overrides_core = False, prompt_instructions = None,
       execute_func = Some (\<lambda>params. Returned ''first agent hook'')\<rparr>]) ''file-operations''
   = Some \<lparr>name = ''file-operations'', description = ''read and write files'', agent = ''core'',
       category = ''general'', module_path = ''core/skills/file-operations'', parameters = [], tags = [],
       version = ''1.0.0'', is_core = True, overrides_core = False, prompt_instructions = None,
       execute_func = Some (\<lambda>params. Returned ''core hook'')\<rparr>
   \<and> overrides_core (fst (register_skill
     (register_all (new_registry ''finn'')
        [\<lparr>name = ''file-operations'', description = ''read and write files'', agent = ''core'',
       category = ''general'', module_path = ''core/skills/file-operations'', parameters = [], tags = [],
       version = ''1.0.0'', is_core = True, overrides_core = False, prompt_instructions = None,
       execute_func = Some (\<lambda>params. Returned ''core hook'')\<rparr>,
         \<lparr>name = ''file-operations'', description = ''read and write files'', agent = ''finn'',
       category = ''general'', module_path = ''agents/finn/skills/file-operations'', parameters = [], tags = [],
       version = ''1.0.0'', is_core = False, overrides_core = False, prompt_instructions = None,
       execute_func = Some (\<lambda>params. Returned ''first agent hook'')\<rparr>])
     \<lparr>name = ''file-operations'', description = ''read and write files, second version'', agent = ''finn'',
       category = ''general'', module_path = ''agents/finn/skills/file_ops_v2.py'', parameters = [], tags = [],
       version = ''1.0.0'', is_core = False, overrides_core = False, prompt_instructions = None,
       execute_func = Some (\<lambda>params. Returned ''second agent hook'')\<rparr>)) = False
   \<and> get_skill (snd (register_skill
     (register_all (new_registry ''finn'')
        [\<lparr>name = ''file-operations'', description = ''read and write files'', agent = ''core'',
       category = ''general'', module_path = ''core/skills/file-operations'', parameters = [], tags = [],
       version = ''1.0.0'', is_core = True, overrides_core = False, prompt_instructions = None,
       execute_func = Some (\<lambda>params. Returned ''core hook'')\<rparr>,
         \<lparr>name = ''file-operations'', description = ''read and write files'', agent = ''finn'',
       category = ''general'', module_path = ''agents/finn/skills/file-operations'', parameters = [], tags = [],
       version = ''1.0.0'', is_core = False, overrides_core = False, prompt_instructions = None,
       execute_func = Some (\<lambda>params. Returned ''first agent hook'')\<rparr>])
     \<lparr>name = ''file-operations'', description = ''read and write files, second version'', agent = ''finn'',
       category = ''general'', module_path = ''agents/finn/skills/file_ops_v2.py'', parameters = [], tags = [],
       version = ''1.0.0'', is_core = False, overrides_core = False, prompt_instructions = None,
       execute_func = Some (\<lambda>params. Returned ''second agent hook'')\<rparr>)) ''file-operations''
   = Some \<lparr>name = ''file-operations'', description = ''read and write files, second version'', agent = ''finn'',
       category = ''general'', module_path = ''agents/finn/skills/file_ops_v2.py'', parameters = [], tags = [],
       version = ''1.0.0'', is_core = False, overrides_core = False, prompt_instructions = None,
       execute_func = Some (\<lambda>params. Returned ''second agent hook'')\<rparr>
   \<and> core_skills (snd (register_skill
     (register_all (new_registry ''finn'')
        [\<lparr>name = ''file-operations'', description = ''read and write files'', agent = ''core'',
       category = ''general'', module_path = ''core/skills/file-operations'', parameters = [], tags = [],
       version = ''1.0.0'', is_core = True, overrides_core = False, prompt_instructions = None,
       execute_func = Some (\<lambda>params. Returned ''core hook'')\<rparr>,
         \<lparr>name = ''file-operations'', description = ''read and write files'', agent = ''finn'',
       category = ''general'', module_path = ''agents/finn/skills/file-operations'', parameters = [], tags = [],
       version = ''1.0.0'', is_core = False, overrides_core = False, prompt_instructions = None,
       execute_func = Some (\<lambda>params. Returned ''first agent hook'')\<rparr>])
     \<lparr>name = ''file-operations'', description = ''read and write files, second version'', agent = ''finn'',
       category = ''general'', module_path = ''agents/finn/skills/file_ops_v2.py'', parameters = [], tags = [],
       version = ''1.0.0'', is_core = False, overrides_core = False, prompt_instructions = None,
       execute_func = Some (\<lambda>params. Returned ''second agent hook'')\<rparr>)) ''file-operations''
   = Some \<lparr>name = ''file-operations'', description = ''read and write files'', agent = ''core'',
       category = ''general'', module_path = ''core/skills/file-operations'', parameters = [], tags = [],
       version = ''1.0.0'', is_core = True, overrides_core = False, prompt_instructions = None,
       execute_func = Some (\<lambda>params. Returned ''core hook'')\<rparr>"
  by (simp add: register_all_def register_skill_def mark_override_def new_registry_def
        get_skill_def Let_def)

section \<open>Memory manager: properties\<close>

lemma map_of_dict_set: "map_of (dict_set d k v) = (map_of d)(k \<mapsto> v)"
  by (induction d) auto

lemma dict_of_rows_snoc:
  "dict_of_rows (rows @ [(k, v)]) = dict_set (dict_of_rows rows) k v"
  by (simp add: dict_of_rows_def)

lemma find_after_upsert:
  "find (\<lambda>x. fact_key x = fact_key r) (upsert_fact rows r) = Some r"
  unfolding upsert_fact_def by (induction rows) auto

lemma append_log_user_facts:
  "map_option user_facts (db_file (snd (append_log env m etype c md)))
     = map_option user_facts (db_file m)"
  by (simp add: append_log_def Let_def split: option.splits)

lemma save_fact_database:
  assumes "save_fact env m k v cat = (True, m')"
  shows "\<exists>db db'. db_file m = Some db \<and> db_file m' = Some db'
           \<and> user_facts db' = upsert_fact (user_facts db)
                \<lparr>fact_key = k, fact_value = v, fact_category = cat,
                 created_at = clock env, updated_at = clock env\<rparr>"
proof (cases "db_file m")
  case None
  with assms show ?thesis by (simp add: save_fact_def)
next
  case (Some db)
  let ?row = "\<lparr>fact_key = k, fact_value = v, fact_category = cat,
                created_at = clock env, updated_at = clock env\<rparr>"
  let ?m1 = "m\<lparr>db_file := Some (db\<lparr>user_facts := upsert_fact (user_facts db) ?row\<rparr>)\<rparr>"
  from assms Some have m': "m' = snd (append_log env ?m1 ''SYSTEM''
      (''Saved fact: '' @ k @ '' = '' @ v @ '' (category: '' @ cat @ '')'') None)"
    by (simp add: save_fact_def Let_def)
  have "map_option user_facts (db_file m') = map_option user_facts (db_file ?m1)"
    unfolding m' by (rule append_log_user_facts)
  then have "map_option user_facts (db_file m') = Some (upsert_fact (user_facts db) ?row)"
    by simp
  then obtain db' where "db_file m' = Some db'"
    and "user_facts db' = upsert_fact (user_facts db) ?row"
    by (auto simp: map_option_case split: option.splits)
  with Some show ?thesis by blast
qed

text \<open>
  C6. After a successful \<open>save_fact(key, value, category)\<close>, \<open>get_fact(key)\<close> returns the
  value and \<open>get_all_facts()\<close> maps the key to the value, whether or not a fact with the same
  key existed before.
\<close>

theorem save_fact_round_trip:
  assumes "save_fact env m k v cat = (True, m')"
  shows "get_fact m' k = Some v \<and> map_of (get_all_facts m' None) k = Some v"
proof -
  let ?row = "\<lparr>fact_key = k, fact_value = v, fact_category = cat,
                created_at = clock env, updated_at = clock env\<rparr>"
  from save_fact_database [OF assms] obtain db db' :: database where
    db': "db_file m' = Some db'" and
    rows: "user_facts db' = upsert_fact (user_facts db) ?row"
    by blast
  have "find (\<lambda>x. fact_key x = k) (user_facts db') = Some ?row"
    using find_after_upsert [of ?row "user_facts db"] rows by simp
  with db' have g: "get_fact m' k = Some v" by (simp add: get_fact_def)
  have "map (\<lambda>r. (fact_key r, fact_value r)) (user_facts db')
          = map (\<lambda>r. (fact_key r, fact_value r)) (filter (\<lambda>x. fact_key x \<noteq> k) (user_facts db)) @ [(k, v)]"
    by (simp add: rows upsert_fact_def)
  then have "map_of (get_all_facts m' None) k = Some v"
    using db' by (simp add: get_all_facts_def dict_of_rows_snoc map_of_dict_set)
  with g show ?thesis by simp
qed

text \<open>
  C7. When the vector-store backend is unavailable (\<open>lance_db\<close> is \<open>None\<close>), \<open>store_memory\<close>
  returns false and leaves the state unchanged, and \<open>recall_memory\<close> returns the empty list;
  both return a value (neither can raise).
\<close>

theorem cold_memory_unavailable:
  assumes "lance_db m = None"
  shows "store_memory env m c md = (False, m) \<and> recall_memory env m query n_results = []"
  using assms by (simp add: store_memory_def recall_memory_def)

lemma json_dumps_empty_iff: "json_dumps_indent2 d = ''{}'' \<longleftrightarrow> d = []"
  by (simp add: json_dumps_indent2_def nl_def)

text \<open>
  C10 (as the code has it). \<open>format_context_for_prompt()\<close> always returns the current mental
  state section (NOW.md contents) followed by the recent activity section (the tail of
  LOG.md); the known-facts section with the facts JSON follows exactly when at least one
  fact is read, and is left out when the facts store is empty.
\<close>

theorem format_context_sections:
  "format_context_for_prompt m =
     now_header @ read_now m @ nl @ nl
     @ log_header @ read_log m (Some 20) @ nl @ nl
     @ (if get_all_facts m None = [] then []
        else facts_header @ json_dumps_indent2 (get_all_facts m None) @ nl @ nl)"
  by (simp add: format_context_for_prompt_def read_context_def Let_def json_dumps_empty_iff)


theorem save_fact_round_trip_witness:
  "get_fact
     (snd (save_fact
        (\<lparr>clock = ''2026-01-05 10:00:00'', clock_stamp = ''1767607200.0'',
        sha16 = (\<lambda>c. ''0123456789abcdef''), embed = (\<lambda>t. ()),
        nearest = (\<lambda>q n rows. [])\<rparr> :: (unit, unit) memory_env)
        (\<lparr>mm_agent_name = ''finn'', now_file = Some ''Status: Idle'', log_file = Some [],
        db_file = Some \<lparr>user_facts = [\<lparr>fact_key = ''user_name'', fact_value = ''Ann'',
                                          fact_category = ''personal'',
                                          created_at = ''2026-01-04 09:00:00'',
                                          updated_at = ''2026-01-04 09:00:00''\<rparr>],
                         log_metadata = []\<rparr>,
        lance_db = None\<rparr> :: unit memory_manager)
        ''user_name'' ''Bob'' ''personal''))
     ''user_name'' = Some ''Bob''
   \<and> map_of (get_all_facts
     (snd (save_fact
        (\<lparr>clock = ''2026-01-05 10:00:00'', clock_stamp = ''1767607200.0'',
        sha16 = (\<lambda>c. ''0123456789abcdef''), embed = (\<lambda>t. ()),
        nearest = (\<lambda>q n rows. [])\<rparr> :: (unit, unit) memory_env)
        (\<lparr>mm_agent_name = ''finn'', now_file = Some ''Status: Idle'', log_file = Some [],
        db_file = Some \<lparr>user_facts = [\<lparr>fact_key = ''user_name'', fact_value = ''Ann'',
                                          fact_category = ''personal'',
                                          created_at = ''2026-01-04 09:00:00'',
                                          updated_at = ''2026-01-04 09:00:00''\<rparr>],
                         log_metadata = []\<rparr>,
        lance_db = None\<rparr> :: unit memory_manager)
        ''user_name'' ''Bob'' ''personal''))
     None) ''user_name'' = Some ''Bob''"
proof -
  let ?env = "(\<lparr>clock = ''2026-01-05 10:00:00'', clock_stamp = ''1767607200.0'',
        sha16 = (\<lambda>c. ''0123456789abcdef''), embed = (\<lambda>t. ()),
        nearest = (\<lambda>q n rows. [])\<rparr> :: (unit, unit) memory_env)"
  let ?m = "(\<lparr>mm_agent_name = ''finn'', now_file = Some ''Status: Idle'', log_file = Some [],
        db_file = Some \<lparr>user_facts = [\<lparr>fact_key = ''user_name'', fact_value = ''Ann'',
                                          fact_category = ''personal'',
                                          created_at = ''2026-01-04 09:00:00'',
                                          updated_at = ''2026-01-04 09:00:00''\<rparr>],
                         log_metadata = []\<rparr>,
        lance_db = None\<rparr> :: unit memory_manager)"
  have p: "save_fact ?env ?m ''user_name'' ''Bob'' ''personal''
             = (True, snd (save_fact ?env ?m ''user_name'' ''Bob'' ''personal''))"
    by (simp add: save_fact_def Let_def)
  from save_fact_round_trip [OF p] show ?thesis .
qed

theorem cold_memory_unavailable_witness:
  "store_memory
     (\<lparr>clock = ''2026-01-05 10:00:00'', clock_stamp = ''1767607200.0'',
        sha16 = (\<lambda>c. ''0123456789abcdef''), embed = (\<lambda>t. ()),
        nearest = (\<lambda>q n rows. [])\<rparr> :: (unit, unit) memory_env)
     (\<lparr>mm_agent_name = ''finn'', now_file = Some ''Status: Idle'', log_file = Some [],
        db_file = Some \<lparr>user_facts = [], log_metadata = []\<rparr>,
        lance_db = None\<rparr> :: unit memory_manager)
     ''remember this'' None
   = (False,
     (\<lparr>mm_agent_name = ''finn'', now_file = Some ''Status: Idle'', log_file = Some [],
        db_file = Some \<lparr>user_facts = [], log_metadata = []\<rparr>,
        lance_db = None\<rparr> :: unit memory_manager))
   \<and> recall_memory
     (\<lparr>clock = ''2026-01-05 10:00:00'', clock_stamp = ''1767607200.0'',
        sha16 = (\<lambda>c. ''0123456789abcdef''), embed = (\<lambda>t. ()),
        nearest = (\<lambda>q n rows. [])\<rparr> :: (unit, unit) memory_env)
     (\<lparr>mm_agent_name = ''finn'', now_file = Some ''Status: Idle'', log_file = Some [],
        db_file = Some \<lparr>user_facts = [], log_metadata = []\<rparr>,
        lance_db = None\<rparr> :: unit memory_manager)
     ''remember'' 3 = []"
proof -
  let ?m = "(\<lparr>mm_agent_name = ''finn'', now_file = Some ''Status: Idle'', log_file = Some [],
        db_file = Some \<lparr>user_facts = [], log_metadata = []\<rparr>,
        lance_db = None\<rparr> :: unit memory_manager)"
  have n: "lance_db ?m = None" by simp
  from cold_memory_unavailable [OF n] show ?thesis .
qed

text \<open>
  The claim as the specification words it fails for an empty facts store: the result ends
  after the recent-activity section and has no known-facts section.
\<close>

theorem format_context_without_facts:
  "format_context_for_prompt
     (\<lparr>mm_agent_name = ''finn'', now_file = Some ''Status: Idle'', log_file = Some [],
        db_file = Some \<lparr>user_facts = [], log_metadata = []\<rparr>,
        lance_db = None\<rparr> :: unit memory_manager)
   = ''=== CURRENT MENTAL STATE (Do not ignore) ==='' @ nl @ ''You are currently working on:'' @ nl
     @ ''Status: Idle'' @ nl @ nl @ ''=== RECENT ACTIVITY LOG ==='' @ nl @ nl @ nl"
  by (simp add: format_context_for_prompt_def read_context_def read_now_def read_log_def
        get_all_facts_def dict_of_rows_def json_dumps_indent2_def now_header_def log_header_def
        py_split_def py_last_n_def entry_separator_def Let_def)

section \<open>Configuration: base URL loading\<close>

lemma sanitize_port_8081: "sanitize_base_url ''http://localhost:8081'' = ''http://localhost:808''"
  by (simp add: sanitize_base_url_def py_rstrip_def)

lemma lower_ollama: "py_lower ''ollama'' = ''ollama''"
  by code_simp

text \<open>
  C5. With \<open>OLLAMA_BASE_URL=http://localhost:8081\<close> (a URL ending in none of the suffixes)
  the configuration is loaded with the base URL \<open>http://localhost:808\<close>: the trailing
  character of the port is removed, because \<open>rstrip('/v1')\<close> removes trailing characters
  drawn from the set of its argument's characters, not the suffix. Stripping the suffix as
  the specification words it leaves this URL unchanged.
\<close>

theorem from_env_base_url_truncated:
  "from_env [''OLLAMA_BASE_URL'' \<mapsto> ''http://localhost:8081'']
   = Inr \<lparr>LLM_PROVIDER = ''ollama'',
          OLLAMA_BASE_URL = ''http://localhost:808'',
          REASONING_MODEL = ''gpt-oss:20b'',
          PARSER_MODEL = ''llama3.1:8b'',
          TOOL_MODEL = ''llama3.1:8b'',
          EMBEDDING_MODEL = ''nomic-embed-text'',
          GOOGLE_API_KEY = None,
          GOOGLE_REASONING_MODEL = ''gemini-1.5-pro-latest'',
          GOOGLE_PARSER_MODEL = ''gemini-1.5-flash-latest'',
          ENABLE_OBSERVABILITY = True\<rparr>
   \<and> strip_suffix_spec ''http://localhost:8081'' = ''http://localhost:8081''"
  by (simp add: from_env_def getenv_def sanitize_port_8081 lower_ollama validate_config_def
        to_bool_def py_startswith_def strip_suffix_spec_def strip_slashes_def py_endswith_def
        Let_def)

text \<open>Where the loading does what the specification says: URLs whose last character before
  the suffix is outside the stripped character sets.\<close>

lemma sanitize_default_v1:
  "sanitize_base_url ''http://192.168.4.102:11434/v1'' = ''http://192.168.4.102:11434''"
  by (simp add: sanitize_base_url_def py_rstrip_def)

lemma sanitize_default_api:
  "sanitize_base_url ''http://192.168.4.102:11434/api/'' = ''http://192.168.4.102:11434''"
  by (simp add: sanitize_base_url_def py_rstrip_def)

end
